theory Spec2Isabelle
  imports Main "HOL-Library.Char_ord" "HOL-Library.List_Lexorder"
begin

section \<open>The loaded document\<close>

text \<open>
  \<^verbatim>\<open>yaml.safe_load\<close> returns nested Python values. The model covers null, integers,
  strings, sequences and mappings. A Python \<^verbatim>\<open>bool\<close> is an \<^verbatim>\<open>int\<close> (\<^verbatim>\<open>True == 1\<close>,
  same hash), so a YAML boolean is the integer 0 or 1 here. Floats, timestamps and binary
  scalars are outside the model. Mapping keys are hashable, so they are scalars; a
  mapping keeps its insertion order, so it is an association list (a loaded mapping has
  pairwise distinct keys; lookups take the first match).
\<close>

datatype scalar = SNull | SInt int | SStr string

datatype yaml = YScalar scalar | YList "yaml list" | YDict "(scalar \<times> yaml) list"

abbreviation YStr :: "string \<Rightarrow> yaml" where
  "YStr s \<equiv> YScalar (SStr s)"

abbreviation YInt :: "int \<Rightarrow> yaml" where
  "YInt i \<equiv> YScalar (SInt i)"

abbreviation YNull :: yaml where
  "YNull \<equiv> YScalar SNull"

type_synonym pydict = "(scalar \<times> yaml) list"

section \<open>Exceptions as values\<close>

text \<open>
  Every \<^verbatim>\<open>raise\<close> is a left injection. \<open>KeyError\<close> carries the missing key (all
  subscripts of the source use string keys); it is the spec's \<^verbatim>\<open>MissingField\<close>.
  \<open>ValueError\<close> and \<open>RuntimeError\<close> carry their message. \<open>EngineError\<close> stands for
  whatever the template engine or the file system raises (TemplateNotFound,
  UndefinedError, OSError, ...); all are subclasses of \<^verbatim>\<open>Exception\<close>.
\<close>

datatype err =
    KeyError string
  | TypeError
  | AttributeError
  | ValueError string
  | RuntimeError string
  | EngineError string

definition bindE :: "err + 'a \<Rightarrow> ('a \<Rightarrow> err + 'b) \<Rightarrow> err + 'b" where
  "bindE m f = (case m of Inl e \<Rightarrow> Inl e | Inr x \<Rightarrow> f x)"

primrec mapE :: "('a \<Rightarrow> err + 'b) \<Rightarrow> 'a list \<Rightarrow> err + 'b list" where
  "mapE f [] = Inr []"
| "mapE f (x # xs) = bindE (f x) (\<lambda>y. bindE (mapE f xs) (\<lambda>ys. Inr (y # ys)))"

section \<open>Python primitives on loaded values\<close>

text \<open>\<^verbatim>\<open>s.startswith(p)\<close>\<close>

definition startswith :: "string \<Rightarrow> string \<Rightarrow> bool" where
  "startswith p s = (take (length p) s = p)"

text \<open>\<^verbatim>\<open>t in s\<close> for two strings: \<open>t\<close> occurs in \<open>s\<close> as a contiguous run.\<close>

primrec contains_str :: "string \<Rightarrow> string \<Rightarrow> bool" where
  "contains_str [] t = (t = [])"
| "contains_str (c # s) t = (startswith t (c # s) \<or> contains_str s t)"

text \<open>
  \<^verbatim>\<open>a == b\<close>: scalars by value, sequences elementwise, mappings as sets of items
  (the order of a mapping's keys does not matter to \<^verbatim>\<open>==\<close>).
\<close>

fun py_eq :: "yaml \<Rightarrow> yaml \<Rightarrow> bool" where
  "py_eq (YScalar a) (YScalar b) = (a = b)"
| "py_eq (YList xs) (YList ys) = list_all2 py_eq xs ys"
| "py_eq (YDict kvs) (YDict lws) =
     (length kvs = length lws \<and>
      list_all (\<lambda>kv. case map_of lws (fst kv) of None \<Rightarrow> False | Some w \<Rightarrow> py_eq (snd kv) w) kvs)"
| "py_eq _ _ = False"

text \<open>\<^verbatim>\<open>v[k]\<close> with a string key: KeyError on a mapping without the key, TypeError on
  anything that is not a mapping (a list or a string wants an integer index, None and
  integers are not subscriptable).\<close>

fun getitem :: "yaml \<Rightarrow> string \<Rightarrow> err + yaml" where
  "getitem (YDict kvs) k = (case map_of kvs (SStr k) of None \<Rightarrow> Inl (KeyError k) | Some v \<Rightarrow> Inr v)"
| "getitem _ k = Inl TypeError"

text \<open>A chain of subscripts \<^verbatim>\<open>v[k1][k2]...\<close>, evaluated left to right.\<close>

primrec getpath :: "yaml \<Rightarrow> string list \<Rightarrow> err + yaml" where
  "getpath v [] = Inr v"
| "getpath v (k # ks) = bindE (getitem v k) (\<lambda>w. getpath w ks)"

text \<open>\<^verbatim>\<open>v.get(k, default)\<close>: only a mapping has the method.\<close>

fun get_default :: "yaml \<Rightarrow> string \<Rightarrow> yaml \<Rightarrow> err + yaml" where
  "get_default (YDict kvs) k dflt = Inr (case map_of kvs (SStr k) of None \<Rightarrow> dflt | Some v \<Rightarrow> v)"
| "get_default _ k dflt = Inl AttributeError"

text \<open>\<^verbatim>\<open>v.items()\<close>, \<^verbatim>\<open>v.values()\<close>, \<^verbatim>\<open>v.keys()\<close>\<close>

fun py_items :: "yaml \<Rightarrow> err + pydict" where
  "py_items (YDict kvs) = Inr kvs"
| "py_items _ = Inl AttributeError"

definition py_values :: "yaml \<Rightarrow> err + yaml list" where
  "py_values v = bindE (py_items v) (\<lambda>kvs. Inr (map snd kvs))"

definition py_keys :: "yaml \<Rightarrow> err + scalar list" where
  "py_keys v = bindE (py_items v) (\<lambda>kvs. Inr (map fst kvs))"

text \<open>\<^verbatim>\<open>for x in v\<close>: the elements of a sequence, the keys of a mapping, the characters
  of a string; None and integers are not iterable.\<close>

fun py_iter :: "yaml \<Rightarrow> err + yaml list" where
  "py_iter (YList xs) = Inr xs"
| "py_iter (YDict kvs) = Inr (map (\<lambda>kv. YScalar (fst kv)) kvs)"
| "py_iter (YScalar (SStr s)) = Inr (map (\<lambda>c. YStr [c]) s)"
| "py_iter (YScalar _) = Inl TypeError"

text \<open>Hashing, as \<^verbatim>\<open>set(...)\<close> and a mapping's key test need it: lists and mappings are
  unhashable.\<close>

fun py_hash :: "yaml \<Rightarrow> err + scalar" where
  "py_hash (YScalar s) = Inr s"
| "py_hash _ = Inl TypeError"

text \<open>\<^verbatim>\<open>set(v)\<close> and \<^verbatim>\<open>s.update(v)\<close>: iterate, hash every element.\<close>

definition py_set :: "yaml \<Rightarrow> err + scalar list" where
  "py_set v = bindE (py_iter v) (mapE py_hash)"

text \<open>\<^verbatim>\<open>x in c\<close>\<close>

fun py_contains :: "yaml \<Rightarrow> yaml \<Rightarrow> err + bool" where
  "py_contains (YList ys) x = Inr (list_ex (py_eq x) ys)"
| "py_contains (YDict kvs) x = bindE (py_hash x) (\<lambda>k. Inr (k \<in> set (map fst kvs)))"
| "py_contains (YScalar (SStr s)) x =
     (case x of YScalar (SStr t) \<Rightarrow> Inr (contains_str s t) | _ \<Rightarrow> Inl TypeError)"
| "py_contains (YScalar _) x = Inl TypeError"

text \<open>\<^verbatim>\<open>d[k] = v\<close> on an insertion-ordered mapping: replace in place, or append.\<close>

fun dict_set :: "('k \<times> 'v) list \<Rightarrow> 'k \<Rightarrow> 'v \<Rightarrow> ('k \<times> 'v) list" where
  "dict_set [] k v = [(k, v)]"
| "dict_set ((k', v') # kvs) k v =
     (if k' = k then (k, v) # kvs else (k', v') # dict_set kvs k v)"

text \<open>A mapping filled by \<^verbatim>\<open>d[k] = v\<close> in a loop over \<open>kvs\<close>.\<close>

definition dict_of_items :: "('k \<times> 'v) list \<Rightarrow> ('k \<times> 'v) list" where
  "dict_of_items kvs = foldl (\<lambda>acc kv. dict_set acc (fst kv) (snd kv)) [] kvs"

section \<open>Template Variable Mapper\<close>

text \<open>
  \<^verbatim>\<open>template_vars\<close> is a mapping from variable names to values. The statements of
  \<^verbatim>\<open>convert_to_template_vars\<close> run in the order of the source.
\<close>

type_synonym tvars = "(string \<times> yaml) list"

definition tv_get :: "tvars \<Rightarrow> string \<Rightarrow> err + yaml" where
  "tv_get tv k = (case map_of tv k of None \<Rightarrow> Inl (KeyError k) | Some v \<Rightarrow> Inr v)"

text \<open>A run of statements \<^verbatim>\<open>template_vars[name] = <expression>\<close>: each right-hand
  side is evaluated in turn, and the first exception ends the run.\<close>

primrec run_assignments :: "(string \<times> (err + yaml)) list \<Rightarrow> tvars \<Rightarrow> err + tvars" where
  "run_assignments [] tv = Inr tv"
| "run_assignments (ne # rest) tv =
     bindE (snd ne) (\<lambda>v. run_assignments rest (dict_set tv (fst ne) v))"

text \<open>A dict display \<^verbatim>\<open>{'a': e1, 'b': e2, ...}\<close>: the values are evaluated in order.\<close>

definition dict_literal :: "(string \<times> (err + yaml)) list \<Rightarrow> err + yaml" where
  "dict_literal kes =
     bindE (mapE (\<lambda>ke. bindE (snd ke) (\<lambda>v. Inr (SStr (fst ke), v))) kes) (\<lambda>kvs. Inr (YDict kvs))"

text \<open>A loop \<^verbatim>\<open>for k, v in m.items(): out[k] = f(v)\<close> into a fresh mapping.\<close>

definition map_items :: "(yaml \<Rightarrow> err + yaml) \<Rightarrow> yaml \<Rightarrow> err + yaml" where
  "map_items f m =
     bindE (py_items m) (\<lambda>kvs.
     bindE (mapE (\<lambda>kv. bindE (f (snd kv)) (\<lambda>w. Inr (fst kv, w))) kvs) (\<lambda>new.
     Inr (YDict (dict_of_items new))))"

text \<open>A loop \<^verbatim>\<open>for x in s: out.append(f(x))\<close> into a fresh list.\<close>

definition map_seq :: "(yaml \<Rightarrow> err + yaml) \<Rightarrow> yaml \<Rightarrow> err + yaml" where
  "map_seq f s = bindE (py_iter s) (\<lambda>xs. bindE (mapE f xs) (\<lambda>ys. Inr (YList ys)))"

definition node_roles :: "yaml \<Rightarrow> err + yaml" where
  "node_roles d = dict_literal
     [(''SPINE'', getpath d [''devices'', ''roles'', ''spine'']),
      (''RR'', getpath d [''devices'', ''roles'', ''route_reflector'']),
      (''CLIENT'', getpath d [''devices'', ''roles'', ''client'']),
      (''BORDER'', getpath d [''devices'', ''roles'', ''border''])]"

definition vlan_def :: "yaml \<Rightarrow> err + yaml" where
  "vlan_def vlan_config = dict_literal
     [(''name'', getitem vlan_config ''name''),
      (''ipaddr'', getitem vlan_config ''ip_address''),
      (''mac'', getitem vlan_config ''mac_address''),
      (''dhcp_helper'', getitem vlan_config ''dhcp_helper''),
      (''bum_addr'', getitem vlan_config ''bum_address'')]"

definition overlay_def :: "yaml \<Rightarrow> err + yaml" where
  "overlay_def overlay =
     bindE (getitem overlay ''vrf'') (\<lambda>vrf.
     bindE (getitem overlay ''vlans'') (\<lambda>vlans.
     bindE (map_items vlan_def vlans) (\<lambda>vl.
     Inr (YDict [(SStr ''vrf'', vrf), (SStr ''vlans'', vl)]))))"

definition intf_def :: "yaml \<Rightarrow> err + yaml" where
  "intf_def intf_config = dict_literal
     [(''name'', getitem intf_config ''name''),
      (''vlan'', getitem intf_config ''vlan''),
      (''ipaddr'', getitem intf_config ''ip_address''),
      (''neighbour'', getitem intf_config ''neighbor_ip'')]"

definition l3out_def :: "yaml \<Rightarrow> err + yaml" where
  "l3out_def connection =
     bindE (getitem connection ''vrf'') (\<lambda>vrf.
     bindE (getitem connection ''device'') (\<lambda>node.
     bindE (getitem connection ''neighbor_asn'') (\<lambda>asn.
     bindE (getitem connection ''interfaces'') (\<lambda>intfs.
     bindE (map_items intf_def intfs) (\<lambda>il.
     Inr (YDict [(SStr ''vrf'', vrf), (SStr ''node'', node),
                 (SStr ''neighbour_asn'', asn), (SStr ''interfaces'', il)]))))))"

definition nac_def :: "yaml \<Rightarrow> err + yaml" where
  "nac_def server = dict_literal
     [(''vrf'', getitem server ''vrf''),
      (''nac_ip'', getitem server ''server_ip''),
      (''nac_key'', getitem server ''shared_key'')]"

definition tunnel_def :: "yaml \<Rightarrow> err + yaml" where
  "tunnel_def tunnel = dict_literal
     [(''tun_ip'', getitem tunnel ''tunnel_ip''),
      (''peer_ip'', getitem tunnel ''peer_ip''),
      (''tun_dst'', getitem tunnel ''tunnel_destination''),
      (''tun_mode'', getitem tunnel ''tunnel_mode''),
      (''peer_bgp_asn'', getitem tunnel ''peer_bgp_asn'')]"

text \<open>
  \<^verbatim>\<open>for vrf_def in template_vars['DEFN_VRF']:
      if vrf_def['id'] in device_vrf_ids:
          template_vars['vrf_list'].append(vrf_def['name'])\<close>
\<close>

primrec vrf_names :: "yaml \<Rightarrow> yaml list \<Rightarrow> err + yaml list" where
  "vrf_names device_vrf_ids [] = Inr []"
| "vrf_names device_vrf_ids (vrf_def # rest) =
     bindE (getitem vrf_def ''id'') (\<lambda>i.
     bindE (py_contains device_vrf_ids i) (\<lambda>b.
     bindE (if b then bindE (getitem vrf_def ''name'') (\<lambda>n. Inr [n]) else Inr []) (\<lambda>here.
     bindE (vrf_names device_vrf_ids rest) (\<lambda>more. Inr (here @ more)))))"

text \<open>The block under \<^verbatim>\<open>if device_hostname:\<close>. None and the empty string are falsy.\<close>

definition device_context :: "string option \<Rightarrow> tvars \<Rightarrow> err + tvars" where
  "device_context device_hostname tv =
     (case device_hostname of
        None \<Rightarrow> Inr tv
      | Some h \<Rightarrow>
          if h = [] then Inr tv
          else
            let tv1 = dict_set tv ''__device'' (YDict [(SStr ''hostname'', YStr h)]) in
            bindE (tv_get tv1 ''DEFN_VRF_TO_NODE'') (\<lambda>m.
            bindE (py_contains m (YStr h)) (\<lambda>b.
            if \<not> b then Inr tv1
            else
              let tv2 = dict_set tv1 ''vrf_list'' (YList []) in
              bindE (tv_get tv2 ''DEFN_VRF_TO_NODE'') (\<lambda>m2.
              bindE (getitem m2 h) (\<lambda>device_vrf_ids.
              bindE (tv_get tv2 ''DEFN_VRF'') (\<lambda>defs.
              bindE (py_iter defs) (\<lambda>vs.
              bindE (vrf_names device_vrf_ids vs) (\<lambda>names.
              Inr (dict_set tv2 ''vrf_list'' (YList names))))))))))"

definition mapper_assignments :: "yaml \<Rightarrow> (string \<times> (err + yaml)) list" where
  "mapper_assignments d =
    [(''FABRIC_BGP_ASN'', getpath d [''fabric'', ''bgp_asn'']),
     (''FABRIC_UNDERLAY'', getpath d [''fabric'', ''underlay'']),
     (''FABRIC_IPSEC_UNDERLAY'', getpath d [''fabric'', ''ipsec_underlay'']),
     (''L2VNIOFFSET'', getpath d [''vni_offsets'', ''l2_vni_offset'']),
     (''L3VNIOFFSET'', getpath d [''vni_offsets'', ''l3_vni_offset'']),
     (''FABRIC_RP_ADDR'', getpath d [''multicast'', ''fabric_rp'', ''address'']),
     (''FABRIC_RP_SCOPES'', getpath d [''multicast'', ''fabric_rp'', ''scopes'']),
     (''ENTERPRISE_RP_ADDR'', getpath d [''multicast'', ''enterprise_rp'', ''address'']),
     (''ENTERPRISE_RP_SCOPES'', getpath d [''multicast'', ''enterprise_rp'', ''scopes'']),
     (''DEFN_NODE_ROLES'', node_roles d),
     (''DEFN_LOOP_UNDERLAY'', getpath d [''devices'', ''loopbacks'', ''underlay'']),
     (''DEFN_LOOP_IPSEC'', getpath d [''devices'', ''loopbacks'', ''ipsec'']),
     (''DEFN_LOOP_MCLUSTER'', getpath d [''devices'', ''loopbacks'', ''multi_cluster'']),
     (''DEFN_LOOP_OVERLAY'', getpath d [''devices'', ''loopbacks'', ''overlay_prefixes'']),
     (''DEFN_LOOP_NAME'', getpath d [''devices'', ''loopbacks'', ''interface_names'']),
     (''DEFN_VRF'', getpath d [''vrfs'', ''definitions'']),
     (''DEFN_VRF_TO_NODE'', getpath d [''vrfs'', ''device_mappings'']),
     (''DEFN_OVERLAY'', bindE (getitem d ''overlay_networks'') (map_seq overlay_def)),
     (''DEFN_L3OUT'', bindE (getpath d [''l3_external'', ''connections'']) (map_seq l3out_def)),
     (''DEFN_L3OUT_AGGREGATES'', getpath d [''l3_external'', ''aggregate_routes'']),
     (''DEFN_NAC_IOT'',
        bindE (getpath d [''network_access_control'', ''servers'']) (map_seq nac_def)),
     (''DEFN_IPSEC'', bindE (getpath d [''ipsec'', ''tunnels'']) (map_items (map_seq tunnel_def)))]"

definition convert_to_template_vars :: "yaml \<Rightarrow> string option \<Rightarrow> err + tvars" where
  "convert_to_template_vars d device_hostname =
     bindE (run_assignments (mapper_assignments d) []) (device_context device_hostname)"

definition generate_device_specific_vars :: "yaml \<Rightarrow> string \<Rightarrow> err + tvars" where
  "generate_device_specific_vars d device_hostname =
     convert_to_template_vars d (Some device_hostname)"

section \<open>Data Model Validator\<close>







text \<open>The set difference \<^verbatim>\<open>set(xs) - S\<close>, its elements each once.\<close>

definition set_minus :: "scalar list \<Rightarrow> scalar set \<Rightarrow> scalar list" where
  "set_minus xs S = filter (\<lambda>x. x \<notin> S) (remdups xs)"

text \<open>
  The four kinds of violation that \<^verbatim>\<open>validate_data_model\<close> appends to \<^verbatim>\<open>errors\<close>, with the
  values that its f-strings interpolate, and \<open>violation_text\<close>, the string appended.
\<close>

datatype violation =
    RequiredFieldMissing string
  | VrfIdsNotUnique
  | DevicesMissingLoopbacks "scalar list"
  | InvalidVrfIds scalar "scalar list"


text \<open>\<^verbatim>\<open>s.split('.')\<close>\<close>

fun split_dot :: "string \<Rightarrow> string list" where
  "split_dot [] = [[]]"
| "split_dot (c # cs) =
     (if c = CHR ''.'' then [] # split_dot cs
      else (case split_dot cs of [] \<Rightarrow> [[c]] | p # ps \<Rightarrow> (c # p) # ps))"

text \<open>The loop of \<^verbatim>\<open>_check_field_exists\<close>: \<^verbatim>\<open>isinstance(current, dict) and part in current\<close>.\<close>

fun walk_parts :: "string list \<Rightarrow> yaml \<Rightarrow> bool" where
  "walk_parts [] current = True"
| "walk_parts (part # parts) current =
     (case current of
        YDict kvs \<Rightarrow> (case map_of kvs (SStr part) of None \<Rightarrow> False | Some v \<Rightarrow> walk_parts parts v)
      | _ \<Rightarrow> False)"

text \<open>Only a string has \<^verbatim>\<open>split\<close>.\<close>

fun check_field_exists :: "yaml \<Rightarrow> yaml \<Rightarrow> err + bool" where
  "check_field_exists d (YScalar (SStr field_path)) = Inr (walk_parts (split_dot field_path) d)"
| "check_field_exists d _ = Inl AttributeError"

fun path_text :: "yaml \<Rightarrow> string" where
  "path_text (YScalar (SStr p)) = p"
| "path_text _ = []"

definition required_field_errors :: "yaml \<Rightarrow> err + violation list" where
  "required_field_errors d =
     bindE (get_default d ''validation'' (YDict [])) (\<lambda>val.
     bindE (get_default val ''required_fields'' (YList [])) (\<lambda>rf.
     bindE (py_iter rf) (\<lambda>required_fields.
     bindE (mapE (\<lambda>field_path. bindE (check_field_exists d field_path) (\<lambda>ok.
               Inr (if \<not> ok then [RequiredFieldMissing (path_text field_path)] else [])))
             required_fields) (\<lambda>es.
     Inr (concat es)))))"

text \<open>\<^verbatim>\<open>vrf_ids = [vrf['id'] for vrf in self.data_model['vrfs']['definitions']]\<close>\<close>

definition vrf_ids_of :: "yaml \<Rightarrow> err + yaml list" where
  "vrf_ids_of d =
     bindE (getpath d [''vrfs'', ''definitions'']) (\<lambda>defs.
     bindE (py_iter defs) (\<lambda>vs. mapE (\<lambda>vrf. getitem vrf ''id'') vs))"

text \<open>The union of the role lists: \<^verbatim>\<open>all_devices.update(role_devices)\<close> for every value.\<close>

definition all_role_devices :: "yaml \<Rightarrow> err + scalar list" where
  "all_role_devices d =
     bindE (getpath d [''devices'', ''roles'']) (\<lambda>roles.
     bindE (py_values roles) (\<lambda>rds.
     bindE (mapE py_set rds) (\<lambda>sets. Inr (concat sets))))"

definition mapping_errors :: "scalar set \<Rightarrow> yaml \<Rightarrow> err + violation list" where
  "mapping_errors valid_vrf_ids d =
     bindE (getpath d [''vrfs'', ''device_mappings'']) (\<lambda>dm.
     bindE (py_items dm) (\<lambda>items.
     bindE (mapE (\<lambda>kv. bindE (py_set (snd kv)) (\<lambda>mapped.
               let invalid_vrfs = set_minus mapped valid_vrf_ids in
               Inr (if invalid_vrfs \<noteq> [] then [InvalidVrfIds (fst kv) invalid_vrfs] else [])))
             items) (\<lambda>es.
     Inr (concat es))))"

definition validate_data_model :: "yaml \<Rightarrow> err + violation list" where
  "validate_data_model d =
     bindE (required_field_errors d) (\<lambda>e1.
     bindE (vrf_ids_of d) (\<lambda>vrf_ids.
     bindE (mapE py_hash vrf_ids) (\<lambda>ids.
     let e2 = (if length vrf_ids \<noteq> card (set ids) then [VrfIdsNotUnique] else []) in
     bindE (all_role_devices d) (\<lambda>all_devices.
     bindE (getpath d [''devices'', ''loopbacks'', ''underlay'']) (\<lambda>ul.
     bindE (py_keys ul) (\<lambda>underlay_devices.
     let missing_loopbacks = set_minus all_devices (set underlay_devices);
         e3 = (if missing_loopbacks \<noteq> [] then [DevicesMissingLoopbacks missing_loopbacks] else [])
     in
     bindE (mapping_errors (set ids) d) (\<lambda>e4.
     Inr (e1 @ e2 @ e3 @ e4))))))))"


section \<open>Config generator: devices and roles\<close>

text \<open>\<^verbatim>\<open>sorted(list(s))\<close> for a set of scalars, given as a duplicate-free list: strings sort
  among themselves and integers among themselves; any comparison across the kinds, which
  sorting two or more elements of mixed kinds must make, raises TypeError.\<close>

definition strs_of :: "scalar list \<Rightarrow> string list" where
  "strs_of xs = concat (map (\<lambda>x. case x of SStr s \<Rightarrow> [s] | _ \<Rightarrow> []) xs)"

definition ints_of :: "scalar list \<Rightarrow> int list" where
  "ints_of xs = concat (map (\<lambda>x. case x of SInt i \<Rightarrow> [i] | _ \<Rightarrow> []) xs)"

definition py_sorted :: "scalar list \<Rightarrow> err + scalar list" where
  "py_sorted xs =
     (if length xs \<le> 1 then Inr xs
      else if length (strs_of xs) = length xs then Inr (map SStr (sort (strs_of xs)))
      else if length (ints_of xs) = length xs then Inr (map SInt (sort (ints_of xs)))
      else Inl TypeError)"

definition get_device_list :: "yaml \<Rightarrow> err + scalar list" where
  "get_device_list d = bindE (all_role_devices d) (\<lambda>all_devices. py_sorted (remdups all_devices))"

text \<open>\<^verbatim>\<open>device_hostname in roles.get(role, [])\<close>\<close>

definition in_role :: "yaml \<Rightarrow> string \<Rightarrow> scalar \<Rightarrow> err + bool" where
  "in_role roles role device_hostname =
     bindE (get_default roles role (YList [])) (\<lambda>l. py_contains l (YScalar device_hostname))"

text \<open>The hostname is a string on the command line; \<^verbatim>\<open>--list-devices\<close> passes the elements
  of the device list, so the argument is a scalar.\<close>

definition get_device_role :: "yaml \<Rightarrow> scalar \<Rightarrow> err + string" where
  "get_device_role d device_hostname =
     bindE (getpath d [''devices'', ''roles'']) (\<lambda>roles.
     bindE (in_role roles ''spine'' device_hostname) (\<lambda>s.
     if s then Inr ''spine''
     else bindE (in_role roles ''border'' device_hostname) (\<lambda>b.
     if b then Inr ''border''
     else bindE (in_role roles ''leaf'' device_hostname) (\<lambda>l.
     if l then Inr ''leaf'' else Inr ''unknown''))))"

section \<open>Config generator: rendering\<close>

definition available_templates :: "(string \<times> string) list" where
  "available_templates =
    [(''DEFN-VRF'', ''DEFN-VRF.j2''),
     (''DEFN-ROLES'', ''DEFN-ROLES.j2''),
     (''DEFN-LOOPBACKS'', ''DEFN-LOOPBACKS.j2''),
     (''DEFN-OVERLAY'', ''DEFN-OVERLAY.j2''),
     (''DEFN-L3OUT'', ''DEFN-L3OUT.j2''),
     (''DEFN-MCAST'', ''DEFN-MCAST.j2''),
     (''DEFN-VNIOFFSETS'', ''DEFN-VNIOFFSETS.j2''),
     (''DEFN-NAC-IOT'', ''DEFN-NAC-IOT.j2''),
     (''DEFN-IPSEC'', ''DEFN-IPSEC.j2''),
     (''FABRIC-VRF'', ''FABRIC-VRF.j2''),
     (''FABRIC-LOOPBACKS'', ''FABRIC-LOOPBACKS.j2''),
     (''FABRIC-NVE'', ''FABRIC-NVE.j2''),
     (''FABRIC-MCAST'', ''FABRIC-MCAST.j2''),
     (''FABRIC-EVPN'', ''FABRIC-EVPN.j2''),
     (''FABRIC-OVERLAY'', ''FABRIC-OVERLAY.j2''),
     (''FABRIC-NAC-IOT'', ''FABRIC-NAC-IOT.j2''),
     (''FABRIC-IPSEC'', ''FABRIC-IPSEC.j2'')]"

text \<open>
  The world the program writes to: the files and the lines printed. A file is keyed by the
  two operands of \<^verbatim>\<open>output_path / filename\<close>, the directory given on the command line and
  the file name; two such pairs that name the same file are not identified.
\<close>

record world =
  files :: "string \<times> string \<Rightarrow> string option"
  stdout :: "string list"

definition print :: "string \<Rightarrow> world \<Rightarrow> world" where
  "print line w = w\<lparr>stdout := stdout w @ [line]\<rparr>"

text \<open>
  What the program takes from outside: the template files, the template engine, the
  Python runtime's renderings and the file system. They are parameters of the model.
  \<^item> \<open>env_render f vars\<close> is \<^verbatim>\<open>self.jinja_env.get_template(f).render(**vars)\<close>, the
    engine with the file-system loader of the templates directory;
  \<^item> \<open>open_read f\<close> is \<^verbatim>\<open>open(self.templates_dir / f).read()\<close>;
  \<^item> \<open>inline_render src vars\<close> renders template source spliced into a larger template:
    its output and the variables after it (a top-level \<^verbatim>\<open>set\<close> in it binds a name for
    what follows);
  \<^item> \<open>call_macro name args\<close> is a macro call, an undefined argument being None;
  \<^item> \<open>exc_str e\<close> is \<^verbatim>\<open>str(e)\<close>, \<open>scalar_str v\<close> is \<^verbatim>\<open>str(v)\<close>;
  \<^item> \<open>path_str dir filename\<close> is \<^verbatim>\<open>str(Path(dir) / filename)\<close>, the joined path as
    \<^verbatim>\<open>pathlib\<close> prints it;
  \<^item> \<open>mkdir_failure dir w\<close> is the exception that
    \<^verbatim>\<open>Path(dir).mkdir(parents=True, exist_ok=True)\<close> raises in the world \<open>w\<close>, if it raises;
  \<^item> \<open>write_failure dir filename parts w\<close> says whether the block
    \<^verbatim>\<open>with open(Path(dir) / filename, 'w') as f\<close> that writes the strings \<open>parts\<close> raises in
    the world \<open>w\<close>, at \<^verbatim>\<open>open\<close> or at one of the \<^verbatim>\<open>f.write\<close> calls: if it does, the
    exception and what the file holds afterwards (None if there is no such file).
\<close>

record environment =
  env_render :: "string \<Rightarrow> tvars \<Rightarrow> err + string"
  open_read :: "string \<Rightarrow> err + string"
  inline_render :: "string \<Rightarrow> tvars \<Rightarrow> err + (string \<times> tvars)"
  call_macro :: "string \<Rightarrow> yaml option list \<Rightarrow> err + string"
  exc_str :: "err \<Rightarrow> string"
  scalar_str :: "scalar \<Rightarrow> string"
  path_str :: "string \<Rightarrow> string \<Rightarrow> string"
  mkdir_failure :: "string \<Rightarrow> world \<Rightarrow> err option"
  write_failure :: "string \<Rightarrow> string \<Rightarrow> string list \<Rightarrow> world \<Rightarrow> (err \<times> string option) option"

text \<open>
  The wrapper template of \<^verbatim>\<open>_render_fabric_template\<close> as the engine parses it: the
  f-string's fixed text gives includes, an if/elif on the template variable
  \<^verbatim>\<open>template_file\<close> and two macro calls; the file's content and the hostname are
  spliced in (the hostname between double quotes, so a string constant, as long as it
  has no quote or backslash of its own).
\<close>

datatype jexpr = Name string | Const string

datatype jnode =
    Data string
  | Include string
  | Source string
  | Call string "jexpr list"
  | IfEq jexpr jexpr "jnode list" "jnode list"

definition wrapper_template :: "string \<Rightarrow> string \<Rightarrow> jnode list" where
  "wrapper_template template_content device_hostname =
    [Data ''\<newline>'',
     Include ''DEFN-VRF.j2'', Data ''\<newline>'',
     Include ''DEFN-ROLES.j2'', Data ''\<newline>'',
     Include ''DEFN-LOOPBACKS.j2'', Data ''\<newline>'',
     Include ''DEFN-OVERLAY.j2'', Data ''\<newline>'',
     Include ''DEFN-L3OUT.j2'', Data ''\<newline>'',
     Include ''DEFN-MCAST.j2'', Data ''\<newline>'',
     Include ''DEFN-VNIOFFSETS.j2'', Data ''\<newline>'',
     Include ''DEFN-NAC-IOT.j2'', Data ''\<newline>'',
     Include ''DEFN-IPSEC.j2'', Data ''\<newline>'',
     Include ''FUNC-OBJECT-MACROS.j2'', Data ''\<newline>\<newline>'',
     Source template_content, Data ''\<newline>\<newline>'',
     IfEq (Name ''template_file'') (Const ''FABRIC-VRF.j2'')
       [Data ''\<newline>'',
        Call ''vrfDefinitionBuild''
          [Name ''DEFN_VRF'', Name ''DEFN_VRF_TO_NODE'', Const device_hostname,
           Name ''DEFN_LOOP_UNDERLAY'', Name ''FABRIC_BGP_ASN''],
        Data ''\<newline>'']
       [IfEq (Name ''template_file'') (Const ''FABRIC-OVERLAY.j2'')
          [Data ''\<newline>'',
           Call ''overlayBuild''
             [Name ''DEFN_VRF'', Name ''DEFN_VRF_TO_NODE'', Const device_hostname,
              Name ''FABRIC_BGP_ASN'', Name ''DEFN_OVERLAY'', Name ''DEFN_NODE_ROLES'',
              Name ''L2VNIOFFSET''],
           Data ''\<newline>'']
          []],
     Data ''\<newline>'']"

text \<open>A name that the context does not bind is undefined (None here).\<close>

fun eval_expr :: "tvars \<Rightarrow> jexpr \<Rightarrow> yaml option" where
  "eval_expr ctx (Name x) = map_of ctx x"
| "eval_expr ctx (Const s) = Some (YStr s)"

text \<open>The engine's \<^verbatim>\<open>==\<close>: an undefined value equals only an undefined value.\<close>

fun jinja_eq :: "yaml option \<Rightarrow> yaml option \<Rightarrow> bool" where
  "jinja_eq (Some a) (Some b) = py_eq a b"
| "jinja_eq None None = True"
| "jinja_eq _ _ = False"

text \<open>
  \<^verbatim>\<open>Template(source).render(**vars)\<close>: a template made by the constructor belongs to an
  environment without a loader, so that an include statement raises TypeError (``no
  loader for this environment specified'') when it runs. The nodes run in order; the
  result is the output and the variables at the end.
\<close>

fun render_nodes :: "environment \<Rightarrow> tvars \<Rightarrow> jnode list \<Rightarrow> err + (string \<times> tvars)" where
  "render_nodes E ctx [] = Inr ([], ctx)"
| "render_nodes E ctx (Data s # ns) =
     (case render_nodes E ctx ns of Inl e \<Rightarrow> Inl e | Inr r \<Rightarrow> Inr (s @ fst r, snd r))"
| "render_nodes E ctx (Include f # ns) = Inl TypeError"
| "render_nodes E ctx (Source src # ns) =
     (case inline_render E src ctx of
        Inl e \<Rightarrow> Inl e
      | Inr a \<Rightarrow> (case render_nodes E (snd a) ns of
                   Inl e \<Rightarrow> Inl e | Inr r \<Rightarrow> Inr (fst a @ fst r, snd r)))"
| "render_nodes E ctx (Call m args # ns) =
     (case call_macro E m (map (eval_expr ctx) args) of
        Inl e \<Rightarrow> Inl e
      | Inr out \<Rightarrow> (case render_nodes E ctx ns of
                     Inl e \<Rightarrow> Inl e | Inr r \<Rightarrow> Inr (out @ fst r, snd r)))"
| "render_nodes E ctx (IfEq a b th el # ns) =
     (case render_nodes E ctx (if jinja_eq (eval_expr ctx a) (eval_expr ctx b) then th else el) of
        Inl e \<Rightarrow> Inl e
      | Inr r1 \<Rightarrow> (case render_nodes E (snd r1) ns of
                    Inl e \<Rightarrow> Inl e | Inr r \<Rightarrow> Inr (fst r1 @ fst r, snd r)))"

definition standalone_render :: "environment \<Rightarrow> tvars \<Rightarrow> jnode list \<Rightarrow> err + string" where
  "standalone_render E vars nodes = bindE (render_nodes E vars nodes) (\<lambda>r. Inr (fst r))"

text \<open>\<^verbatim>\<open>_render_fabric_template\<close>: the try block, and the except branch that renders the
  file alone.\<close>

definition render_fabric_template :: "environment \<Rightarrow> string \<Rightarrow> tvars \<Rightarrow> string \<Rightarrow> err + string" where
  "render_fabric_template E template_file template_vars device_hostname =
     (case bindE (open_read E template_file) (\<lambda>template_content.
             standalone_render E template_vars (wrapper_template template_content device_hostname)) of
        Inr out \<Rightarrow> Inr out
      | Inl e \<Rightarrow> env_render E template_file template_vars)"

text \<open>\<^verbatim>\<open>repr\<close> of a list of plain strings, for the ValueError message.\<close>

fun join_quoted :: "string list \<Rightarrow> string" where
  "join_quoted [] = []"
| "join_quoted [x] = [CHR 0x27] @ x @ [CHR 0x27]"
| "join_quoted (x # y # ys) = [CHR 0x27] @ x @ [CHR 0x27] @ '', '' @ join_quoted (y # ys)"

definition generate_config :: "environment \<Rightarrow> yaml \<Rightarrow> string \<Rightarrow> string \<Rightarrow> err + string" where
  "generate_config E d device_hostname template_name =
     (case map_of available_templates template_name of
        None \<Rightarrow> Inl (ValueError (''Template '' @ template_name @ '' not found. Available: ['' @
                        join_quoted (map fst available_templates) @ '']''))
      | Some template_file \<Rightarrow>
          bindE (generate_device_specific_vars d device_hostname) (\<lambda>template_vars.
          case (if startswith ''DEFN-'' template_name then env_render E template_file template_vars
                else render_fabric_template E template_file template_vars device_hostname) of
            Inr config \<Rightarrow> Inr config
          | Inl e \<Rightarrow> Inl (RuntimeError (''Error rendering template '' @ template_name @ '': '' @
                              exc_str E e))))"

section \<open>Config generator: template selection and bulk generation\<close>

definition definition_templates :: "string list" where
  "definition_templates = filter (startswith ''DEFN-'') (map fst available_templates)"

text \<open>The list \<^verbatim>\<open>fabric_templates\<close> that \<^verbatim>\<open>generate_all_configs\<close> builds from the role.\<close>

definition fabric_templates :: "string \<Rightarrow> string list" where
  "fabric_templates device_role =
     (if device_role \<in> set [''spine'', ''leaf'', ''border''] then
        [''FABRIC-VRF'', ''FABRIC-LOOPBACKS'', ''FABRIC-NVE'', ''FABRIC-MCAST'', ''FABRIC-EVPN'']
        @ (if device_role \<in> set [''leaf'', ''border''] then [''FABRIC-OVERLAY''] else [])
        @ (if device_role = ''leaf'' then [''FABRIC-NAC-IOT''] else [])
        @ (if device_role = ''border'' then [''FABRIC-IPSEC''] else [])
      else [])"

text \<open>One round of the loop: the try around \<^verbatim>\<open>generate_config\<close> and its except branch.\<close>

definition config_slot :: "environment \<Rightarrow> yaml \<Rightarrow> string \<Rightarrow> string \<Rightarrow> string" where
  "config_slot E d device_hostname template_name =
     (case generate_config E d device_hostname template_name of
        Inr config \<Rightarrow> config
      | Inl e \<Rightarrow> ''Error generating '' @ template_name @ '': '' @ exc_str E e)"

definition generate_all_configs :: "environment \<Rightarrow> yaml \<Rightarrow> string \<Rightarrow> err + (string \<times> string) list" where
  "generate_all_configs E d device_hostname =
     bindE (get_device_role d (SStr device_hostname)) (\<lambda>device_role.
     let all_templates = definition_templates @ fabric_templates device_role in
     Inr (foldl (\<lambda>configs template_name.
                   dict_set configs template_name (config_slot E d device_hostname template_name))
            [] all_templates))"

section \<open>Config writer and command line\<close>

text \<open>
  A step that changes the world and may raise gives the world it leaves behind in both
  cases: \<open>Inl (e, w')\<close> when it raises \<open>e\<close>, \<open>Inr w'\<close> when it returns. \<^verbatim>\<open>print\<close> is taken
  not to raise.
\<close>

type_synonym outcome = "(err \<times> world) + world"

text \<open>\<^verbatim>\<open>output_path.mkdir(parents=True, exist_ok=True)\<close>. Directories are not part of the
  world.\<close>

definition mkdir :: "environment \<Rightarrow> string \<Rightarrow> world \<Rightarrow> outcome" where
  "mkdir E dir w = (case mkdir_failure E dir w of Some e \<Rightarrow> Inl (e, w) | None \<Rightarrow> Inr w)"

text \<open>The block \<^verbatim>\<open>with open(filepath, 'w') as f\<close> with its \<^verbatim>\<open>f.write\<close> calls: \<^verbatim>\<open>open\<close>
  truncates, so when the block does not raise the file holds the strings written, in
  order.\<close>

definition write_file :: "environment \<Rightarrow> string \<Rightarrow> string \<Rightarrow> string list \<Rightarrow> world \<Rightarrow> outcome" where
  "write_file E dir filename parts w =
     (case write_failure E dir filename parts w of
        Some (e, left) \<Rightarrow> Inl (e, w\<lparr>files := (files w)((dir, filename) := left)\<rparr>)
      | None \<Rightarrow> Inr (w\<lparr>files := (files w)((dir, filename) \<mapsto> concat parts)\<rparr>))"

definition cfg_filename :: "string \<Rightarrow> string \<Rightarrow> string" where
  "cfg_filename device_hostname template_name = device_hostname @ ''_'' @ template_name @ ''.cfg''"

text \<open>The four \<^verbatim>\<open>f.write\<close> calls before \<^verbatim>\<open>f.write(config)\<close> in \<^verbatim>\<open>save_device_configs\<close>.\<close>

definition bulk_header :: "string \<Rightarrow> string \<Rightarrow> string list" where
  "bulk_header device_hostname template_name =
     [''! Configuration generated from '' @ template_name @ '' template\<newline>'',
      ''! Device: '' @ device_hostname @ ''\<newline>'',
      ''! Generated by BGP EVPN Config Generator\<newline>'',
      ''!\<newline>'']"

text \<open>The three \<^verbatim>\<open>f.write\<close> calls before \<^verbatim>\<open>f.write(config)\<close> in \<^verbatim>\<open>main\<close>.\<close>

definition single_header :: "string \<Rightarrow> string \<Rightarrow> string list" where
  "single_header device_hostname template_name =
     [''! Configuration generated from '' @ template_name @ '' template\<newline>'',
      ''! Device: '' @ device_hostname @ ''\<newline>'',
      ''!\<newline>'']"

text \<open>One round of the loop of \<^verbatim>\<open>save_device_configs\<close>: the file, then the line
  \<^verbatim>\<open>Saved: <filepath>\<close>.\<close>

definition save_one :: "environment \<Rightarrow> string \<Rightarrow> string \<Rightarrow> world \<Rightarrow> string \<times> string \<Rightarrow> outcome" where
  "save_one E device_hostname output_dir w tc =
     (case write_file E output_dir (cfg_filename device_hostname (fst tc))
             (bulk_header device_hostname (fst tc) @ [snd tc]) w of
        Inl ew \<Rightarrow> Inl ew
      | Inr w' \<Rightarrow>
          Inr (print (''Saved: '' @ path_str E output_dir (cfg_filename device_hostname (fst tc))) w'))"

text \<open>The loop over \<^verbatim>\<open>configs.items()\<close>: nothing in it catches, so the first round that
  raises ends it.\<close>

primrec save_all :: "environment \<Rightarrow> string \<Rightarrow> string \<Rightarrow> (string \<times> string) list \<Rightarrow> world \<Rightarrow> outcome" where
  "save_all E device_hostname output_dir [] w = Inr w"
| "save_all E device_hostname output_dir (tc # configs) w =
     (case save_one E device_hostname output_dir w tc of
        Inl ew \<Rightarrow> Inl ew
      | Inr w' \<Rightarrow> save_all E device_hostname output_dir configs w')"

definition save_device_configs :: "environment \<Rightarrow> yaml \<Rightarrow> string \<Rightarrow> string \<Rightarrow> world \<Rightarrow> outcome" where
  "save_device_configs E d device_hostname output_dir w =
     (case mkdir E output_dir w of
        Inl ew \<Rightarrow> Inl ew
      | Inr w1 \<Rightarrow>
          (case generate_all_configs E d device_hostname of
             Inl e \<Rightarrow> Inl (e, w1)
           | Inr configs \<Rightarrow> save_all E device_hostname output_dir configs w1))"

record args =
  device :: string
  template :: "string option"
  all_templates :: bool
  output_dir :: "string option"
  list_devices :: bool
  list_templates :: bool

text \<open>\<^verbatim>\<open>if x:\<close> for an optional string argument: None and the empty string are falsy.\<close>

fun truthy :: "string option \<Rightarrow> string option" where
  "truthy None = None"
| "truthy (Some s) = (if s = [] then None else Some s)"

definition print_one :: "string \<Rightarrow> world \<Rightarrow> string \<times> string \<Rightarrow> world" where
  "print_one device_hostname w tc =
     print (snd tc)
       (print (replicate 60 CHR ''='')
          (print (''Device: '' @ device_hostname)
             (print (''Template: '' @ fst tc)
                (print (''\<newline>'' @ replicate 60 CHR ''='') w))))"

definition list_devices_out :: "environment \<Rightarrow> yaml \<Rightarrow> world \<Rightarrow> scalar list \<Rightarrow> err + world" where
  "list_devices_out E d w devices =
     bindE (mapE (\<lambda>dev. bindE (get_device_role d dev) (\<lambda>role.
                     Inr (''  '' @ scalar_str E dev @ '' ('' @ role @ '')''))) devices) (\<lambda>ls.
     Inr (foldl (\<lambda>w l. print l w) (print ''Available devices:'' w) ls))"

text \<open>
  \<^verbatim>\<open>main\<close> after the generator is built, on the loaded document: the exit status and the
  world at the end. An exception outside the try block ends the process with status 1
  (what it printed before that is kept out of the model); \<^verbatim>\<open>sys.exit(1)\<close> inside the try
  block is not an \<^verbatim>\<open>Exception\<close> and passes the except clause. \<open>failed\<close> is the except
  clause: the line \<^verbatim>\<open>Error generating configuration: <e>\<close> and exit status 1.
\<close>

definition failed :: "environment \<Rightarrow> err \<Rightarrow> world \<Rightarrow> nat \<times> world" where
  "failed E e w = (1, print (''Error generating configuration: '' @ exc_str E e) w)"

definition generate_branch :: "environment \<Rightarrow> yaml \<Rightarrow> args \<Rightarrow> world \<Rightarrow> nat \<times> world" where
  "generate_branch E d a w =
     (if all_templates a then
        (case truthy (output_dir a) of
           Some dir \<Rightarrow>
             (case save_device_configs E d (device a) dir w of
                Inr w' \<Rightarrow> (0, w')
              | Inl (e, w') \<Rightarrow> failed E e w')
         | None \<Rightarrow>
             (case generate_all_configs E d (device a) of
                Inr configs \<Rightarrow> (0, foldl (print_one (device a)) w configs)
              | Inl e \<Rightarrow> failed E e w))
      else
        (case truthy (template a) of
           Some t \<Rightarrow>
             (case generate_config E d (device a) t of
                Inl e \<Rightarrow> failed E e w
              | Inr config \<Rightarrow>
                  (case truthy (output_dir a) of
                     Some dir \<Rightarrow>
                       (case mkdir E dir w of
                          Inl (e, w') \<Rightarrow> failed E e w'
                        | Inr w1 \<Rightarrow>
                            (case write_file E dir (cfg_filename (device a) t)
                                    (single_header (device a) t @ [config]) w1 of
                               Inl (e, w') \<Rightarrow> failed E e w'
                             | Inr w2 \<Rightarrow>
                                 (0, print (''Configuration saved to: '' @
                                            path_str E dir (cfg_filename (device a) t)) w2)))
                   | None \<Rightarrow> (0, print config w)))
         | None \<Rightarrow> (1, print ''Error: Must specify either --template or --all-templates'' w)))"

definition main :: "environment \<Rightarrow> yaml \<Rightarrow> args \<Rightarrow> world \<Rightarrow> nat \<times> world" where
  "main E d a w =
     (if list_devices a then
        (case bindE (get_device_list d) (list_devices_out E d w) of
           Inl e \<Rightarrow> (1, w) | Inr w' \<Rightarrow> (0, w'))
      else if list_templates a then
        (0, foldl (\<lambda>w t. print (''  '' @ t) w) (print ''Available templates:'' w)
              (map fst available_templates))
      else
        (case get_device_list d of
           Inl e \<Rightarrow> (1, w)
         | Inr devices \<Rightarrow>
             if SStr (device a) \<notin> set devices then
               (1, print ''Use --list-devices to see available devices''
                     (print (''Error: Device '' @ [CHR 0x27] @ device a @ [CHR 0x27] @
                             '' not found in data model'') w))
             else generate_branch E d a w))"

section \<open>Fields the Mapper reads and the Validator does not\<close>

text \<open>
  The Validator reads \<^verbatim>\<open>vrfs.definitions\<close> with the \<^verbatim>\<open>id\<close> of every definition,
  \<^verbatim>\<open>vrfs.device_mappings\<close>, \<^verbatim>\<open>devices.roles\<close> and \<^verbatim>\<open>devices.loopbacks.underlay\<close>, and the
  paths the document lists itself under \<^verbatim>\<open>validation.required_fields\<close>. The predicate
  below says that the document has the other fields that \<^verbatim>\<open>convert_to_template_vars\<close>
  subscripts: the paths of \<open>unvalidated_paths\<close>, present in the sense of
  \<^verbatim>\<open>_check_field_exists\<close>, and the fields of the records in its sequences and mappings.
\<close>

definition unvalidated_paths :: "string list list" where
  "unvalidated_paths =
    [[''fabric'', ''bgp_asn''], [''fabric'', ''underlay''], [''fabric'', ''ipsec_underlay''],
     [''vni_offsets'', ''l2_vni_offset''], [''vni_offsets'', ''l3_vni_offset''],
     [''multicast'', ''fabric_rp'', ''address''], [''multicast'', ''fabric_rp'', ''scopes''],
     [''multicast'', ''enterprise_rp'', ''address''], [''multicast'', ''enterprise_rp'', ''scopes''],
     [''devices'', ''roles'', ''spine''], [''devices'', ''roles'', ''route_reflector''],
     [''devices'', ''roles'', ''client''], [''devices'', ''roles'', ''border''],
     [''devices'', ''loopbacks'', ''ipsec''], [''devices'', ''loopbacks'', ''multi_cluster''],
     [''devices'', ''loopbacks'', ''overlay_prefixes''],
     [''devices'', ''loopbacks'', ''interface_names''],
     [''overlay_networks''],
     [''l3_external'', ''connections''], [''l3_external'', ''aggregate_routes''],
     [''network_access_control'', ''servers''],
     [''ipsec'', ''tunnels'']]"

text \<open>The value is a mapping that has every key of \<open>ks\<close>.\<close>

definition has_fields :: "string list \<Rightarrow> yaml \<Rightarrow> bool" where
  "has_fields ks v = list_all (\<lambda>k. walk_parts [k] v) ks"

text \<open>Every element that a loop over the value visits satisfies \<open>P\<close> (nothing is asked of a
  value that cannot be iterated: the loop raises TypeError there, not KeyError).\<close>

definition each_element :: "(yaml \<Rightarrow> bool) \<Rightarrow> yaml \<Rightarrow> bool" where
  "each_element P v = (case py_iter v of Inr xs \<Rightarrow> list_all P xs | Inl e \<Rightarrow> True)"

text \<open>Every value that a loop over \<^verbatim>\<open>v.items()\<close> visits satisfies \<open>P\<close>.\<close>

definition each_value :: "(yaml \<Rightarrow> bool) \<Rightarrow> yaml \<Rightarrow> bool" where
  "each_value P v = (case py_items v of Inr kvs \<Rightarrow> list_all (\<lambda>kv. P (snd kv)) kvs | Inl e \<Rightarrow> True)"

text \<open>The part of \<open>v\<close> under the key \<open>k\<close> satisfies \<open>P\<close>, where there is one.\<close>

definition at_key :: "string \<Rightarrow> (yaml \<Rightarrow> bool) \<Rightarrow> yaml \<Rightarrow> bool" where
  "at_key k P v = (case getitem v k of Inr w \<Rightarrow> P w | Inl e \<Rightarrow> True)"

definition overlay_complete :: "yaml \<Rightarrow> bool" where
  "overlay_complete overlay =
     (has_fields [''vrf'', ''vlans''] overlay \<and>
      at_key ''vlans''
        (each_value (has_fields [''name'', ''ip_address'', ''mac_address'', ''dhcp_helper'',
                                 ''bum_address''])) overlay)"

definition connection_complete :: "yaml \<Rightarrow> bool" where
  "connection_complete connection =
     (has_fields [''vrf'', ''device'', ''neighbor_asn'', ''interfaces''] connection \<and>
      at_key ''interfaces''
        (each_value (has_fields [''name'', ''vlan'', ''ip_address'', ''neighbor_ip''])) connection)"

definition unvalidated_fields_present :: "yaml \<Rightarrow> bool" where
  "unvalidated_fields_present d =
     (list_all (\<lambda>p. walk_parts p d) unvalidated_paths \<and>
      at_key ''overlay_networks'' (each_element overlay_complete) d \<and>
      at_key ''l3_external'' (at_key ''connections'' (each_element connection_complete)) d \<and>
      at_key ''network_access_control''
        (at_key ''servers'' (each_element (has_fields [''vrf'', ''server_ip'', ''shared_key'']))) d \<and>
      at_key ''ipsec''
        (at_key ''tunnels''
           (each_value (each_element
              (has_fields [''tunnel_ip'', ''peer_ip'', ''tunnel_destination'', ''tunnel_mode'',
                           ''peer_bgp_asn''])))) d \<and>
      at_key ''vrfs'' (at_key ''definitions'' (each_element (has_fields [''name'']))) d)"

section \<open>Example documents\<close>

text \<open>A mapping with string keys.\<close>

definition ymap :: "(string \<times> yaml) list \<Rightarrow> yaml" where
  "ymap kvs = YDict (map (\<lambda>kv. (SStr (fst kv), snd kv)) kvs)"

text \<open>
  A small fabric: one spine, one leaf, one border and a route reflector that has no other
  role; one VRF (id 10, VRF_A); the device \<open>host\<close> is mapped to the VRF ids \<open>ids\<close>.
\<close>

definition example_doc :: "string \<Rightarrow> yaml list \<Rightarrow> yaml" where
  "example_doc host ids = ymap
    [(''fabric'', ymap [(''bgp_asn'', YInt 65001), (''underlay'', YStr ''ospf''),
                        (''ipsec_underlay'', YInt 0)]),
     (''vni_offsets'', ymap [(''l2_vni_offset'', YInt 10000), (''l3_vni_offset'', YInt 50000)]),
     (''multicast'', ymap
        [(''fabric_rp'', ymap [(''address'', YStr ''10.0.0.1''), (''scopes'', YList [])]),
         (''enterprise_rp'', ymap [(''address'', YStr ''10.0.0.2''), (''scopes'', YList [])])]),
     (''devices'', ymap
        [(''roles'', ymap
            [(''spine'', YList [YStr ''spine01'']),
             (''leaf'', YList [YStr ''leaf01'']),
             (''border'', YList [YStr ''border01'']),
             (''route_reflector'', YList [YStr ''rr01'']),
             (''client'', YList [YStr ''leaf01''])]),
         (''loopbacks'', ymap
            [(''underlay'', ymap [(''spine01'', YStr ''10.1.0.1''), (''leaf01'', YStr ''10.1.0.2''),
                                  (''border01'', YStr ''10.1.0.3''), (''rr01'', YStr ''10.1.0.4'')]),
             (''ipsec'', ymap []),
             (''multi_cluster'', ymap []),
             (''overlay_prefixes'', ymap []),
             (''interface_names'', ymap [])])]),
     (''vrfs'', ymap
        [(''definitions'', YList [ymap [(''id'', YInt 10), (''name'', YStr ''VRF_A'')]]),
         (''device_mappings'', ymap [(host, YList ids)])]),
     (''overlay_networks'', YList
        [ymap [(''vrf'', YStr ''VRF_A''),
               (''vlans'', YDict [(SInt 101, ymap
                  [(''name'', YStr ''users''), (''ip_address'', YStr ''10.2.0.1''),
                   (''mac_address'', YStr ''0000.0000.0001''), (''dhcp_helper'', YStr ''10.3.0.1''),
                   (''bum_address'', YStr ''239.0.0.1'')])])]]),
     (''l3_external'', ymap
        [(''connections'', YList
            [ymap [(''vrf'', YStr ''VRF_A''), (''device'', YStr ''border01''),
                   (''neighbor_asn'', YInt 65002),
                   (''interfaces'', ymap [(''uplink'', ymap
                      [(''name'', YStr ''Eth1''), (''vlan'', YInt 300),
                       (''ip_address'', YStr ''10.4.0.1''), (''neighbor_ip'', YStr ''10.4.0.2'')])])]]),
         (''aggregate_routes'', YList [])]),
     (''network_access_control'', ymap
        [(''servers'', YList [ymap [(''vrf'', YStr ''VRF_A''), (''server_ip'', YStr ''10.5.0.1''),
                                    (''shared_key'', YStr ''key'')]])]),
     (''ipsec'', ymap
        [(''tunnels'', ymap [(''border01'', YList [ymap
            [(''tunnel_ip'', YStr ''10.6.0.1''), (''peer_ip'', YStr ''10.6.0.2''),
             (''tunnel_destination'', YStr ''192.0.2.1''), (''tunnel_mode'', YStr ''ipv4''),
             (''peer_bgp_asn'', YInt 65003)]])])]),
     (''validation'', ymap [(''required_fields'', YList [YStr ''fabric.bgp_asn''])])]"

text \<open>A document with only the sections the Validator reads, all of them empty.\<close>

definition bare_doc :: yaml where
  "bare_doc = ymap
    [(''vrfs'', ymap [(''definitions'', YList []), (''device_mappings'', ymap [])]),
     (''devices'', ymap [(''roles'', ymap []), (''loopbacks'', ymap [(''underlay'', ymap [])])])]"

text \<open>An environment whose engine returns the name of the file it is asked to render,
  except for the files in \<open>broken\<close>, for which it raises. Its file system creates every
  directory and every file of an output directory, but a file name with a slash points
  into a subdirectory, and there is none. Its \<open>path_str\<close> puts a slash between the two
  operands, which is what \<^verbatim>\<open>pathlib\<close> prints for a directory such as \<^verbatim>\<open>out\<close> and a file
  name without a slash.\<close>

definition example_env :: "string list \<Rightarrow> environment" where
  "example_env broken =
     \<lparr>env_render = (\<lambda>f vars. if f \<in> set broken then Inl (EngineError ''UndefinedError'') else Inr f),
      open_read = (\<lambda>f. Inr f),
      inline_render = (\<lambda>src vars. Inr (src, vars)),
      call_macro = (\<lambda>name args. Inr name),
      exc_str = (\<lambda>e. case e of RuntimeError m \<Rightarrow> m | KeyError k \<Rightarrow> k | _ \<Rightarrow> ''error''),
      scalar_str = (\<lambda>v. case v of SStr s \<Rightarrow> s | _ \<Rightarrow> ''?''),
      path_str = (\<lambda>dir filename. dir @ ''/'' @ filename),
      mkdir_failure = (\<lambda>dir w. None),
      write_failure = (\<lambda>dir filename parts w.
         if CHR ''/'' \<in> set filename then Some (EngineError ''FileNotFoundError'', None) else None)\<rparr>"

text \<open>Role lists that overlap: \<open>sw1\<close> is a spine and a leaf, \<open>sw2\<close> a border and a leaf.\<close>

definition overlap_doc :: yaml where
  "overlap_doc = ymap
    [(''devices'', ymap
        [(''roles'', ymap
            [(''spine'', YList [YStr ''sw1'']),
             (''leaf'', YList [YStr ''sw1'', YStr ''sw2'', YStr ''sw3'']),
             (''border'', YList [YStr ''sw2'']),
             (''client'', YList [YStr ''sw4''])])])]"

definition example_args :: "string \<Rightarrow> string option \<Rightarrow> bool \<Rightarrow> string option \<Rightarrow> args" where
  "example_args dev tmpl bulk dir =
     \<lparr>device = dev, template = tmpl, all_templates = bulk, output_dir = dir,
      list_devices = False, list_templates = False\<rparr>"

definition empty_world :: world where
  "empty_world = \<lparr>files = Map.empty, stdout = []\<rparr>"





text \<open>Role entries that are not sequences: a null, and a string.\<close>

definition null_spine_doc :: yaml where
  "null_spine_doc = ymap
    [(''devices'', ymap
        [(''roles'', ymap [(''spine'', YNull), (''leaf'', YList [YStr ''leaf01''])])])]"

definition string_spine_doc :: yaml where
  "string_spine_doc = ymap
    [(''devices'', ymap
        [(''roles'', ymap [(''spine'', YStr ''spine01''), (''leaf'', YList [YStr ''leaf01''])])])]"



section \<open>Basic facts\<close>

lemma bindE_simps [simp]: "bindE (Inl e) f = Inl e" "bindE (Inr x) f = f x"
  by (simp_all add: bindE_def)

lemma bindE_eq_Inr: "bindE m f = Inr y \<longleftrightarrow> (\<exists>x. m = Inr x \<and> f x = Inr y)"
  by (cases m) simp_all

lemma dict_set_fresh: "k \<notin> fst ` set kvs \<Longrightarrow> dict_set kvs k v = kvs @ [(k, v)]"
  by (induction kvs) auto

lemma foldl_dict_set_distinct:
  "distinct ts \<Longrightarrow> set ts \<inter> fst ` set acc = {} \<Longrightarrow>
   foldl (\<lambda>c t. dict_set c t (f t)) acc ts = acc @ map (\<lambda>t. (t, f t)) ts"
proof (induction ts arbitrary: acc)
  case Nil
  then show ?case by simp
next
  case (Cons t ts)
  have fresh: "t \<notin> fst ` set acc" using Cons.prems by auto
  have "foldl (\<lambda>c t. dict_set c t (f t)) (acc @ [(t, f t)]) ts
          = (acc @ [(t, f t)]) @ map (\<lambda>t. (t, f t)) ts"
    using Cons.prems by (intro Cons.IH) auto
  then show ?case by (simp add: dict_set_fresh [OF fresh])
qed

section \<open>Template selection\<close>

lemma definition_templates_eq:
  "definition_templates =
     [''DEFN-VRF'', ''DEFN-ROLES'', ''DEFN-LOOPBACKS'', ''DEFN-OVERLAY'', ''DEFN-L3OUT'',
      ''DEFN-MCAST'', ''DEFN-VNIOFFSETS'', ''DEFN-NAC-IOT'', ''DEFN-IPSEC'']"
  by (simp add: definition_templates_def available_templates_def startswith_def)

lemma fabric_templates_cases:
  "fabric_templates r =
     (if r = ''spine'' then [''FABRIC-VRF'', ''FABRIC-LOOPBACKS'', ''FABRIC-NVE'', ''FABRIC-MCAST'', ''FABRIC-EVPN'']
      else if r = ''leaf'' then [''FABRIC-VRF'', ''FABRIC-LOOPBACKS'', ''FABRIC-NVE'', ''FABRIC-MCAST'', ''FABRIC-EVPN'', ''FABRIC-OVERLAY'', ''FABRIC-NAC-IOT'']
      else if r = ''border'' then [''FABRIC-VRF'', ''FABRIC-LOOPBACKS'', ''FABRIC-NVE'', ''FABRIC-MCAST'', ''FABRIC-EVPN'', ''FABRIC-OVERLAY'', ''FABRIC-IPSEC'']
      else [])"
  by (simp add: fabric_templates_def)

lemma all_templates_distinct: "distinct (definition_templates @ fabric_templates r)"
  by (simp add: definition_templates_eq fabric_templates_cases)

lemma generate_all_configs_eq:
  "generate_all_configs E d h =
     bindE (get_device_role d (SStr h)) (\<lambda>role.
       Inr (map (\<lambda>t. (t, config_slot E d h t)) (definition_templates @ fabric_templates role)))"
proof -
  have "foldl (\<lambda>c t. dict_set c t (config_slot E d h t)) [] (definition_templates @ fabric_templates r)
          = map (\<lambda>t. (t, config_slot E d h t)) (definition_templates @ fabric_templates r)" for r
    using foldl_dict_set_distinct [where acc = "[]" and f = "config_slot E d h", OF all_templates_distinct]
    by simp
  then show ?thesis
    unfolding generate_all_configs_def Let_def by simp
qed

lemma get_device_role_range:
  "get_device_role d h = Inr r \<Longrightarrow> r \<in> {''spine'', ''border'', ''leaf'', ''unknown''}"
  unfolding get_device_role_def
  by (auto simp: bindE_eq_Inr split: if_splits)

lemma fabric_not_defn: "t \<in> set (fabric_templates r) \<Longrightarrow> \<not> startswith ''DEFN-'' t"
  by (auto simp: fabric_templates_cases startswith_def split: if_splits)

lemma defn_startswith: "t \<in> set definition_templates \<Longrightarrow> startswith ''DEFN-'' t"
  by (simp add: definition_templates_def)

lemma keys_split:
  "filter (startswith ''DEFN-'') (definition_templates @ fabric_templates r) = definition_templates"
  "filter (\<lambda>t. \<not> startswith ''DEFN-'' t) (definition_templates @ fabric_templates r) = fabric_templates r"
proof -
  have a: "filter (startswith ''DEFN-'') definition_templates = definition_templates"
    by (simp add: definition_templates_def)
  have b: "filter (startswith ''DEFN-'') (fabric_templates r) = []"
    using fabric_not_defn by (auto simp: filter_empty_conv)
  have c: "filter (\<lambda>t. \<not> startswith ''DEFN-'' t) definition_templates = []"
    using defn_startswith by (auto simp: filter_empty_conv)
  have d: "filter (\<lambda>t. \<not> startswith ''DEFN-'' t) (fabric_templates r) = fabric_templates r"
    using fabric_not_defn by (auto simp: filter_id_conv)
  show "filter (startswith ''DEFN-'') (definition_templates @ fabric_templates r) = definition_templates"
    using a b by simp
  show "filter (\<lambda>t. \<not> startswith ''DEFN-'' t) (definition_templates @ fabric_templates r) = fabric_templates r"
    using c d by simp
qed

lemma configs_keys:
  assumes "generate_all_configs E d h = Inr configs"
  shows "\<exists>role. get_device_role d (SStr h) = Inr role \<and>
           map fst configs = definition_templates @ fabric_templates role"
  using assms unfolding generate_all_configs_eq
  by (auto simp: bindE_eq_Inr comp_def)

text \<open>
  Claim C4. The fabric templates selected for a device are a fixed function of its resolved
  role. Whenever the bulk run returns, the role of the device is one of spine, border,
  leaf and unknown, and the templates of the result that are not definition templates
  are exactly \<open>fabric_templates role\<close>. A spine gets FABRIC-VRF, FABRIC-LOOPBACKS,
  FABRIC-NVE, FABRIC-MCAST and FABRIC-EVPN; a leaf gets the spine's list followed by
  FABRIC-OVERLAY and FABRIC-NAC-IOT, and not FABRIC-IPSEC; a border gets the spine's list
  followed by FABRIC-OVERLAY and FABRIC-IPSEC, and not FABRIC-NAC-IOT; a device of
  unknown role gets no fabric template.
\<close>

theorem fabric_templates_by_role:
  assumes "generate_all_configs E d h = Inr configs"
  shows "(\<exists>role. get_device_role d (SStr h) = Inr role \<and>
            role \<in> {''spine'', ''border'', ''leaf'', ''unknown''} \<and>
            filter (\<lambda>t. \<not> startswith ''DEFN-'' t) (map fst configs) = fabric_templates role) \<and>
         fabric_templates ''spine'' =
           [''FABRIC-VRF'', ''FABRIC-LOOPBACKS'', ''FABRIC-NVE'', ''FABRIC-MCAST'', ''FABRIC-EVPN''] \<and>
         fabric_templates ''leaf'' =
           fabric_templates ''spine'' @ [''FABRIC-OVERLAY'', ''FABRIC-NAC-IOT''] \<and>
         ''FABRIC-IPSEC'' \<notin> set (fabric_templates ''leaf'') \<and>
         fabric_templates ''border'' =
           fabric_templates ''spine'' @ [''FABRIC-OVERLAY'', ''FABRIC-IPSEC''] \<and>
         ''FABRIC-NAC-IOT'' \<notin> set (fabric_templates ''border'') \<and>
         fabric_templates ''unknown'' = []"
proof -
  obtain role where r: "get_device_role d (SStr h) = Inr role"
    and k: "map fst configs = definition_templates @ fabric_templates role"
    using configs_keys [OF assms] by blast
  have f: "filter (\<lambda>t. \<not> startswith ''DEFN-'' t) (map fst configs) = fabric_templates role"
    unfolding k by (rule keys_split(2))
  have "\<exists>role. get_device_role d (SStr h) = Inr role \<and>
            role \<in> {''spine'', ''border'', ''leaf'', ''unknown''} \<and>
            filter (\<lambda>t. \<not> startswith ''DEFN-'' t) (map fst configs) = fabric_templates role"
    using r f get_device_role_range [OF r] by blast
  moreover have "fabric_templates ''spine'' =
           [''FABRIC-VRF'', ''FABRIC-LOOPBACKS'', ''FABRIC-NVE'', ''FABRIC-MCAST'', ''FABRIC-EVPN'']"
    by (simp add: fabric_templates_cases)
  moreover have "fabric_templates ''leaf'' =
           fabric_templates ''spine'' @ [''FABRIC-OVERLAY'', ''FABRIC-NAC-IOT'']"
    by (simp add: fabric_templates_cases)
  moreover have "''FABRIC-IPSEC'' \<notin> set (fabric_templates ''leaf'')"
    by (simp add: fabric_templates_cases)
  moreover have "fabric_templates ''border'' =
           fabric_templates ''spine'' @ [''FABRIC-OVERLAY'', ''FABRIC-IPSEC'']"
    by (simp add: fabric_templates_cases)
  moreover have "''FABRIC-NAC-IOT'' \<notin> set (fabric_templates ''border'')"
    by (simp add: fabric_templates_cases)
  moreover have "fabric_templates ''unknown'' = []"
    by (simp add: fabric_templates_cases)
  ultimately show ?thesis by (intro conjI)
qed

lemma example_roles:
  "get_device_role (example_doc host ids) (SStr ''spine01'') = Inr ''spine''"
  "get_device_role (example_doc host ids) (SStr ''leaf01'') = Inr ''leaf''"
  "get_device_role (example_doc host ids) (SStr ''border01'') = Inr ''border''"
  "get_device_role (example_doc host ids) (SStr ''rr01'') = Inr ''unknown''"
  by (simp_all add: get_device_role_def example_doc_def ymap_def in_role_def)


text \<open>The leaf of the example fabric: the bulk run returns, so the hypothesis of C4 holds there.\<close>

theorem fabric_templates_by_role_witness:
  "generate_all_configs (example_env []) (example_doc ''leaf01'' [YInt 10]) ''leaf01'' =
     Inr (map (\<lambda>t. (t, config_slot (example_env []) (example_doc ''leaf01'' [YInt 10]) ''leaf01'' t))
            (definition_templates @ fabric_templates ''leaf'')) \<and>
   ((\<exists>role. get_device_role (example_doc ''leaf01'' [YInt 10]) (SStr ''leaf01'') = Inr role \<and>
            role \<in> {''spine'', ''border'', ''leaf'', ''unknown''} \<and>
            filter (\<lambda>t. \<not> startswith ''DEFN-'' t)
              (map fst (map (\<lambda>t. (t, config_slot (example_env []) (example_doc ''leaf01'' [YInt 10]) ''leaf01'' t))
                 (definition_templates @ fabric_templates ''leaf''))) = fabric_templates role) \<and>
         fabric_templates ''spine'' =
           [''FABRIC-VRF'', ''FABRIC-LOOPBACKS'', ''FABRIC-NVE'', ''FABRIC-MCAST'', ''FABRIC-EVPN''] \<and>
         fabric_templates ''leaf'' =
           fabric_templates ''spine'' @ [''FABRIC-OVERLAY'', ''FABRIC-NAC-IOT''] \<and>
         ''FABRIC-IPSEC'' \<notin> set (fabric_templates ''leaf'') \<and>
         fabric_templates ''border'' =
           fabric_templates ''spine'' @ [''FABRIC-OVERLAY'', ''FABRIC-IPSEC''] \<and>
         ''FABRIC-NAC-IOT'' \<notin> set (fabric_templates ''border'') \<and>
         fabric_templates ''unknown'' = [])"
proof -
  have h: "generate_all_configs (example_env []) (example_doc ''leaf01'' [YInt 10]) ''leaf01'' =
     Inr (map (\<lambda>t. (t, config_slot (example_env []) (example_doc ''leaf01'' [YInt 10]) ''leaf01'' t))
            (definition_templates @ fabric_templates ''leaf''))"
    by (simp add: generate_all_configs_eq example_roles)
  show ?thesis
    using h fabric_templates_by_role [OF h] by (rule conjI)
qed

text \<open>
  Claim C3, as amended. Whenever the bulk run for a device returns, the definition
  templates in its result are exactly the nine templates DEFN-VRF, DEFN-ROLES,
  DEFN-LOOPBACKS, DEFN-OVERLAY, DEFN-L3OUT, DEFN-MCAST, DEFN-VNIOFFSETS, DEFN-NAC-IOT
  and DEFN-IPSEC, whatever the role of the device. (Seventeen is the size of the whole
  table \<open>available_templates\<close>, of which eight are fabric templates.)
\<close>

theorem definition_templates_always_nine:
  assumes "generate_all_configs E d h = Inr configs"
  shows "filter (startswith ''DEFN-'') (map fst configs) =
           [''DEFN-VRF'', ''DEFN-ROLES'', ''DEFN-LOOPBACKS'', ''DEFN-OVERLAY'', ''DEFN-L3OUT'',
            ''DEFN-MCAST'', ''DEFN-VNIOFFSETS'', ''DEFN-NAC-IOT'', ''DEFN-IPSEC''] \<and>
         length (filter (startswith ''DEFN-'') (map fst configs)) = 9"
proof -
  obtain role where k: "map fst configs = definition_templates @ fabric_templates role"
    using configs_keys [OF assms] by blast
  have "filter (startswith ''DEFN-'') (map fst configs) = definition_templates"
    unfolding k by (rule keys_split(1))
  then show ?thesis by (simp add: definition_templates_eq)
qed

text \<open>The spine of the example fabric.\<close>

theorem definition_templates_always_nine_witness:
  "generate_all_configs (example_env []) (example_doc ''leaf01'' [YInt 10]) ''spine01'' =
     Inr (map (\<lambda>t. (t, config_slot (example_env []) (example_doc ''leaf01'' [YInt 10]) ''spine01'' t))
            (definition_templates @ fabric_templates ''spine'')) \<and>
   (filter (startswith ''DEFN-'')
      (map fst (map (\<lambda>t. (t, config_slot (example_env []) (example_doc ''leaf01'' [YInt 10]) ''spine01'' t))
            (definition_templates @ fabric_templates ''spine''))) =
           [''DEFN-VRF'', ''DEFN-ROLES'', ''DEFN-LOOPBACKS'', ''DEFN-OVERLAY'', ''DEFN-L3OUT'',
            ''DEFN-MCAST'', ''DEFN-VNIOFFSETS'', ''DEFN-NAC-IOT'', ''DEFN-IPSEC''] \<and>
    length (filter (startswith ''DEFN-'')
      (map fst (map (\<lambda>t. (t, config_slot (example_env []) (example_doc ''leaf01'' [YInt 10]) ''spine01'' t))
            (definition_templates @ fabric_templates ''spine'')))) = 9)"
proof -
  have h: "generate_all_configs (example_env []) (example_doc ''leaf01'' [YInt 10]) ''spine01'' =
     Inr (map (\<lambda>t. (t, config_slot (example_env []) (example_doc ''leaf01'' [YInt 10]) ''spine01'' t))
            (definition_templates @ fabric_templates ''spine''))"
    by (simp add: generate_all_configs_eq example_roles)
  show ?thesis
    using h definition_templates_always_nine [OF h] by (rule conjI)
qed

text \<open>
  Claim C3 as stated fails: the leaf of the example fabric is a known device, and its bulk
  run holds nine definition templates, not seventeen.
\<close>

theorem seventeen_definition_templates_counterexample:
  "get_device_role (example_doc ''leaf01'' [YInt 10]) (SStr ''leaf01'') = Inr ''leaf'' \<and>
   map_sum id (\<lambda>configs. length (filter (startswith ''DEFN-'') (map fst configs)))
     (generate_all_configs (example_env []) (example_doc ''leaf01'' [YInt 10]) ''leaf01'') = Inr 9 \<and>
   map_sum id (\<lambda>configs. length (filter (startswith ''DEFN-'') (map fst configs)))
     (generate_all_configs (example_env []) (example_doc ''leaf01'' [YInt 10]) ''leaf01'') \<noteq> Inr 17"
proof -
  let ?slots = "map (\<lambda>t. (t, config_slot (example_env []) (example_doc ''leaf01'' [YInt 10]) ''leaf01'' t))
                  (definition_templates @ fabric_templates ''leaf'')"
  have g: "generate_all_configs (example_env []) (example_doc ''leaf01'' [YInt 10]) ''leaf01'' = Inr ?slots"
    by (simp add: generate_all_configs_eq example_roles)
  have k: "map fst ?slots = definition_templates @ fabric_templates ''leaf''"
    by (simp add: comp_def)
  define n where "n = length (filter (startswith ''DEFN-'') (map fst ?slots))"
  have e: "map_sum id (\<lambda>configs. length (filter (startswith ''DEFN-'') (map fst configs)))
     (generate_all_configs (example_env []) (example_doc ''leaf01'' [YInt 10]) ''leaf01'') = Inr n"
    by (simp only: g map_sum.simps n_def)
  have n: "n = 9"
    unfolding n_def k keys_split(1) by (simp add: definition_templates_eq)
  show ?thesis
    unfolding e n by (simp add: example_roles)
qed

section \<open>Role resolution\<close>

lemma py_eq_scalar [simp]: "py_eq (YScalar a) y = (y = YScalar a)"
  by (cases y) auto

lemma list_ex_py_eq_scalar [simp]: "list_ex (py_eq (YScalar a)) ys = (YScalar a \<in> set ys)"
  by (induction ys) auto

lemma get_device_role_lists:
  assumes "getpath d [''devices'', ''roles''] = Inr roles"
    and "get_default roles ''spine'' (YList []) = Inr (YList spine)"
    and "get_default roles ''border'' (YList []) = Inr (YList border)"
    and "get_default roles ''leaf'' (YList []) = Inr (YList leaf)"
  shows "get_device_role d (SStr h) =
           Inr (if YStr h \<in> set spine then ''spine''
                else if YStr h \<in> set border then ''border''
                else if YStr h \<in> set leaf then ''leaf''
                else ''unknown'')"
  using assms by (simp add: get_device_role_def in_role_def)

text \<open>
  Claim C5, as amended. For a document whose \<^verbatim>\<open>devices.roles\<close> is present, with the spine,
  border and leaf entries sequences where they are present (\<^verbatim>\<open>roles.get(role, [])\<close> makes an absent
  entry the empty list), role resolution returns spine if the hostname is in the spine
  list, else border if it is in the border list, else leaf if it is in the leaf list,
  else unknown. The result is one of these four, a hostname in both the spine and the
  leaf list resolves to spine, a hostname in none of the three lists yields unknown and
  no error, and the route_reflector and client entries do not occur in the result.
\<close>

theorem role_resolution_precedence:
  assumes "getpath d [''devices'', ''roles''] = Inr roles"
    and "get_default roles ''spine'' (YList []) = Inr (YList spine)"
    and "get_default roles ''border'' (YList []) = Inr (YList border)"
    and "get_default roles ''leaf'' (YList []) = Inr (YList leaf)"
  shows "get_device_role d (SStr h) =
           Inr (if YStr h \<in> set spine then ''spine''
                else if YStr h \<in> set border then ''border''
                else if YStr h \<in> set leaf then ''leaf''
                else ''unknown'')"
  using assms by (rule get_device_role_lists)

text \<open>Overlapping role lists: \<open>sw1\<close> (spine and leaf) is a spine, \<open>sw2\<close> (border and leaf)
  a border, \<open>sw3\<close> a leaf, \<open>sw4\<close> (client only) and \<open>sw5\<close> (in no list) unknown.\<close>

theorem role_resolution_precedence_witness:
  "get_device_role overlap_doc (SStr ''sw1'') = Inr ''spine'' \<and>
   get_device_role overlap_doc (SStr ''sw2'') = Inr ''border'' \<and>
   get_device_role overlap_doc (SStr ''sw3'') = Inr ''leaf'' \<and>
   get_device_role overlap_doc (SStr ''sw4'') = Inr ''unknown'' \<and>
   get_device_role overlap_doc (SStr ''sw5'') = Inr ''unknown''"
proof -
  let ?roles = "ymap [(''spine'', YList [YStr ''sw1'']),
             (''leaf'', YList [YStr ''sw1'', YStr ''sw2'', YStr ''sw3'']),
             (''border'', YList [YStr ''sw2'']),
             (''client'', YList [YStr ''sw4''])]"
  have r: "getpath overlap_doc [''devices'', ''roles''] = Inr ?roles"
    by (simp add: overlap_doc_def ymap_def)
  have s: "get_default ?roles ''spine'' (YList []) = Inr (YList [YStr ''sw1''])"
    by (simp add: ymap_def)
  have b: "get_default ?roles ''border'' (YList []) = Inr (YList [YStr ''sw2''])"
    by (simp add: ymap_def)
  have l: "get_default ?roles ''leaf'' (YList []) = Inr (YList [YStr ''sw1'', YStr ''sw2'', YStr ''sw3''])"
    by (simp add: ymap_def)
  note t = role_resolution_precedence [OF r s b l]
  show ?thesis
    using t [of "''sw1''"] t [of "''sw2''"] t [of "''sw3''"] t [of "''sw4''"] t [of "''sw5''"]
    by simp
qed

text \<open>
  Claim C5 as stated holds for every document. It does not: the entries of the three
  roles are only defaulted when absent, not checked. With a null spine entry the
  membership test raises TypeError, for the hostname \<open>leaf01\<close> of the leaf list as for the
  hostname \<open>sw9\<close> of no list, so neither a role nor unknown is returned. With a spine
  entry that is the string \<open>spine01\<close> the membership test is a substring test, and the
  hostname \<open>pine\<close>, which no role lists, resolves to spine. Without the \<^verbatim>\<open>devices\<close> section
  the resolution raises KeyError.
\<close>

theorem role_resolution_raises_counterexample:
  "get_device_role null_spine_doc (SStr ''leaf01'') = Inl TypeError \<and>
   get_device_role null_spine_doc (SStr ''sw9'') = Inl TypeError \<and>
   get_device_role string_spine_doc (SStr ''pine'') = Inr ''spine'' \<and>
   get_device_role (ymap []) (SStr ''leaf01'') = Inl (KeyError ''devices'')"
  by (simp add: get_device_role_def in_role_def null_spine_doc_def string_spine_doc_def ymap_def
        startswith_def)

section \<open>The device list\<close>

lemma mapE_Inr_all2: "mapE f xs = Inr ys \<Longrightarrow> list_all2 (\<lambda>x y. f x = Inr y) xs ys"
  by (induction xs arbitrary: ys) (auto simp: bindE_eq_Inr)

lemma list_all2_in_left:
  "list_all2 P xs ys \<Longrightarrow> x \<in> set xs \<Longrightarrow> \<exists>y\<in>set ys. P x y"
  by (induction rule: list_all2_induct) auto

lemma strs_of_le: "length (strs_of xs) \<le> length xs"
  by (induction xs) (auto simp: strs_of_def split: scalar.splits)

lemma strs_of_full: "length (strs_of xs) = length xs \<Longrightarrow> map SStr (strs_of xs) = xs"
proof (induction xs)
  case Nil
  then show ?case by (simp add: strs_of_def)
next
  case (Cons x xs)
  have le: "length (strs_of xs) \<le> length xs" by (rule strs_of_le)
  show ?case
  proof (cases x)
    case (SStr s)
    with Cons show ?thesis by (simp add: strs_of_def)
  next
    case SNull
    with Cons.prems le show ?thesis by (simp add: strs_of_def)
  next
    case (SInt i)
    with Cons.prems le show ?thesis by (simp add: strs_of_def)
  qed
qed

lemma ints_of_le: "length (ints_of xs) \<le> length xs"
  by (induction xs) (auto simp: ints_of_def split: scalar.splits)

lemma ints_of_full: "length (ints_of xs) = length xs \<Longrightarrow> map SInt (ints_of xs) = xs"
proof (induction xs)
  case Nil
  then show ?case by (simp add: ints_of_def)
next
  case (Cons x xs)
  have le: "length (ints_of xs) \<le> length xs" by (rule ints_of_le)
  show ?case
  proof (cases x)
    case (SInt i)
    with Cons show ?thesis by (simp add: ints_of_def)
  next
    case SNull
    with Cons.prems le show ?thesis by (simp add: ints_of_def)
  next
    case (SStr s)
    with Cons.prems le show ?thesis by (simp add: ints_of_def)
  qed
qed

lemma py_sorted_set: "py_sorted xs = Inr ys \<Longrightarrow> set ys = set xs"
proof -
  assume a: "py_sorted xs = Inr ys"
  consider (short) "length xs \<le> 1"
    | (strs) "\<not> length xs \<le> 1" "length (strs_of xs) = length xs"
    | (ints) "\<not> length xs \<le> 1" "length (strs_of xs) \<noteq> length xs" "length (ints_of xs) = length xs"
    | (mixed) "\<not> length xs \<le> 1" "length (strs_of xs) \<noteq> length xs" "length (ints_of xs) \<noteq> length xs"
    by blast
  then show ?thesis
  proof cases
    case short
    with a show ?thesis by (simp add: py_sorted_def)
  next
    case strs
    with a have "ys = map SStr (sort (strs_of xs))" by (simp add: py_sorted_def)
    then have "set ys = set (map SStr (strs_of xs))" by simp
    then show ?thesis by (simp only: strs_of_full [OF strs(2)])
  next
    case ints
    with a have "ys = map SInt (sort (ints_of xs))" by (simp add: py_sorted_def)
    then have "set ys = set (map SInt (ints_of xs))" by simp
    then show ?thesis by (simp only: ints_of_full [OF ints(3)])
  next
    case mixed
    with a show ?thesis by (simp add: py_sorted_def)
  qed
qed

lemma py_set_member:
  assumes "py_set (YList l) = Inr s" and "YScalar x \<in> set l"
  shows "x \<in> set s"
proof -
  have "list_all2 (\<lambda>v y. py_hash v = Inr y) l s"
    using assms(1) by (simp add: py_set_def mapE_Inr_all2)
  from list_all2_in_left [OF this assms(2)]
  obtain y where "y \<in> set s" "py_hash (YScalar x) = Inr y" by blast
  then show ?thesis by simp
qed

lemma all_role_devices_member:
  assumes "all_role_devices d = Inr devs"
    and "getpath d [''devices'', ''roles''] = Inr (YDict roles)"
    and "(k, YList l) \<in> set roles" and "YScalar x \<in> set l"
  shows "x \<in> set devs"
proof -
  obtain sets where m: "mapE py_set (map snd roles) = Inr sets" and c: "devs = concat sets"
    using assms(1,2) by (auto simp: all_role_devices_def py_values_def bindE_eq_Inr)
  have a2: "list_all2 (\<lambda>v s. py_set v = Inr s) (map snd roles) sets"
    using m by (rule mapE_Inr_all2)
  have mem: "YList l \<in> set (map snd roles)"
    using assms(3) by force
  from list_all2_in_left [OF a2 mem]
  obtain s where "s \<in> set sets" "py_set (YList l) = Inr s" by blast
  then show ?thesis
    using py_set_member [OF _ assms(4)] c by auto
qed

lemma device_list_set:
  "get_device_list d = Inr devices \<Longrightarrow> \<exists>devs. all_role_devices d = Inr devs \<and> set devices = set devs"
  by (auto simp: get_device_list_def bindE_eq_Inr dest: py_sorted_set)

lemma main_device_known:
  assumes "get_device_list d = Inr devices" and "SStr (device a) \<in> set devices"
    and "\<not> list_devices a" and "\<not> list_templates a"
  shows "main E d a w = generate_branch E d a w"
  using assms by (simp add: main_def)

text \<open>
  Claim C10. Let the device list of the document be computed, let the hostname be a member
  of the route_reflector or the client list, and of none of the spine, border and leaf
  lists. Then the hostname is in the device list (the union of all role lists), so that
  \<^verbatim>\<open>main\<close> goes past its device check to the generation branch; its role is unknown;
  and the bulk run returns exactly the nine configurations DEFN-VRF to DEFN-IPSEC, none
  of them a fabric configuration.
\<close>

theorem reflector_only_device:
  assumes "get_device_list d = Inr devices"
    and "getpath d [''devices'', ''roles''] = Inr (YDict roles)"
    and "r = ''route_reflector'' \<or> r = ''client''"
    and "map_of roles (SStr r) = Some (YList members)"
    and "YStr h \<in> set members"
    and "get_default (YDict roles) ''spine'' (YList []) = Inr (YList spine)"
    and "get_default (YDict roles) ''border'' (YList []) = Inr (YList border)"
    and "get_default (YDict roles) ''leaf'' (YList []) = Inr (YList leaf)"
    and "YStr h \<notin> set spine" and "YStr h \<notin> set border" and "YStr h \<notin> set leaf"
    and "\<not> list_devices a" and "\<not> list_templates a" and "device a = h"
  shows "SStr h \<in> set devices \<and>
         main E d a w = generate_branch E d a w \<and>
         get_device_role d (SStr h) = Inr ''unknown'' \<and>
         generate_all_configs E d h =
           Inr (map (\<lambda>t. (t, config_slot E d h t))
                  [''DEFN-VRF'', ''DEFN-ROLES'', ''DEFN-LOOPBACKS'', ''DEFN-OVERLAY'', ''DEFN-L3OUT'',
                   ''DEFN-MCAST'', ''DEFN-VNIOFFSETS'', ''DEFN-NAC-IOT'', ''DEFN-IPSEC''])"
proof -
  obtain devs where dv: "all_role_devices d = Inr devs" and eq: "set devices = set devs"
    using device_list_set [OF assms(1)] by blast
  have "(SStr r, YList members) \<in> set roles"
    using assms(4) by (rule map_of_SomeD)
  then have "SStr h \<in> set devs"
    using all_role_devices_member [OF dv assms(2) _ assms(5)] by blast
  then have known: "SStr h \<in> set devices" using eq by simp
  have role: "get_device_role d (SStr h) = Inr ''unknown''"
    using get_device_role_lists [OF assms(2) assms(6) assms(7) assms(8), of h] assms(9,10,11)
    by simp
  have m: "main E d a w = generate_branch E d a w"
    using main_device_known [OF assms(1) _ assms(12) assms(13)] known assms(14) by simp
  have "generate_all_configs E d h =
           Inr (map (\<lambda>t. (t, config_slot E d h t)) (definition_templates @ fabric_templates ''unknown''))"
    by (simp add: generate_all_configs_eq role)
  then have g: "generate_all_configs E d h =
           Inr (map (\<lambda>t. (t, config_slot E d h t))
                  [''DEFN-VRF'', ''DEFN-ROLES'', ''DEFN-LOOPBACKS'', ''DEFN-OVERLAY'', ''DEFN-L3OUT'',
                   ''DEFN-MCAST'', ''DEFN-VNIOFFSETS'', ''DEFN-NAC-IOT'', ''DEFN-IPSEC''])"
    by (simp only: definition_templates_eq fabric_templates_cases) simp
  show ?thesis using known m role g by (intro conjI)
qed

lemma example_device_list:
  "get_device_list (example_doc host ids) =
     Inr [SStr ''border01'', SStr ''leaf01'', SStr ''rr01'', SStr ''spine01'']"
proof -
  have a: "all_role_devices (example_doc host ids) =
      Inr [SStr ''spine01'', SStr ''leaf01'', SStr ''border01'', SStr ''rr01'', SStr ''leaf01'']"
    by (simp add: all_role_devices_def example_doc_def ymap_def py_values_def py_set_def)
  have r: "remdups [SStr ''spine01'', SStr ''leaf01'', SStr ''border01'', SStr ''rr01'', SStr ''leaf01'']
      = [SStr ''spine01'', SStr ''border01'', SStr ''rr01'', SStr ''leaf01'']"
    by simp
  have s: "sort [''spine01'', ''border01'', ''rr01'', ''leaf01''] = [''border01'', ''leaf01'', ''rr01'', ''spine01'']"
    by code_simp
  have p: "py_sorted [SStr ''spine01'', SStr ''border01'', SStr ''rr01'', SStr ''leaf01'']
      = Inr [SStr ''border01'', SStr ''leaf01'', SStr ''rr01'', SStr ''spine01'']"
    by (simp add: py_sorted_def strs_of_def s)
  show ?thesis
    unfolding get_device_list_def a bindE_simps r by (rule p)
qed

lemma example_roles_value:
  "getpath (example_doc host ids) [''devices'', ''roles''] =
     Inr (YDict [(SStr ''spine'', YList [YStr ''spine01'']),
                 (SStr ''leaf'', YList [YStr ''leaf01'']),
                 (SStr ''border'', YList [YStr ''border01'']),
                 (SStr ''route_reflector'', YList [YStr ''rr01'']),
                 (SStr ''client'', YList [YStr ''leaf01''])])"
  by (simp add: example_doc_def ymap_def)

text \<open>The route reflector \<open>rr01\<close> of the example fabric.\<close>

theorem reflector_only_device_witness:
  "SStr ''rr01'' \<in> set [SStr ''border01'', SStr ''leaf01'', SStr ''rr01'', SStr ''spine01''] \<and>
   main (example_env []) (example_doc ''leaf01'' [YInt 10]) (example_args ''rr01'' None True None) empty_world =
     generate_branch (example_env []) (example_doc ''leaf01'' [YInt 10]) (example_args ''rr01'' None True None) empty_world \<and>
   get_device_role (example_doc ''leaf01'' [YInt 10]) (SStr ''rr01'') = Inr ''unknown'' \<and>
   generate_all_configs (example_env []) (example_doc ''leaf01'' [YInt 10]) ''rr01'' =
     Inr (map (\<lambda>t. (t, config_slot (example_env []) (example_doc ''leaf01'' [YInt 10]) ''rr01'' t))
            [''DEFN-VRF'', ''DEFN-ROLES'', ''DEFN-LOOPBACKS'', ''DEFN-OVERLAY'', ''DEFN-L3OUT'',
             ''DEFN-MCAST'', ''DEFN-VNIOFFSETS'', ''DEFN-NAC-IOT'', ''DEFN-IPSEC''])"
proof -
  let ?roles = "[(SStr ''spine'', YList [YStr ''spine01'']),
                 (SStr ''leaf'', YList [YStr ''leaf01'']),
                 (SStr ''border'', YList [YStr ''border01'']),
                 (SStr ''route_reflector'', YList [YStr ''rr01'']),
                 (SStr ''client'', YList [YStr ''leaf01''])]"
  have r: "''route_reflector'' = ''route_reflector'' \<or> ''route_reflector'' = ''client''" by simp
  have m: "map_of ?roles (SStr ''route_reflector'') = Some (YList [YStr ''rr01''])" by simp
  have h: "YStr ''rr01'' \<in> set [YStr ''rr01'']" by simp
  have s: "get_default (YDict ?roles) ''spine'' (YList []) = Inr (YList [YStr ''spine01''])" by simp
  have b: "get_default (YDict ?roles) ''border'' (YList []) = Inr (YList [YStr ''border01''])" by simp
  have l: "get_default (YDict ?roles) ''leaf'' (YList []) = Inr (YList [YStr ''leaf01''])" by simp
  have ns: "YStr ''rr01'' \<notin> set [YStr ''spine01'']" by simp
  have nb: "YStr ''rr01'' \<notin> set [YStr ''border01'']" by simp
  have nl: "YStr ''rr01'' \<notin> set [YStr ''leaf01'']" by simp
  have a1: "\<not> list_devices (example_args ''rr01'' None True None)" by (simp add: example_args_def)
  have a2: "\<not> list_templates (example_args ''rr01'' None True None)" by (simp add: example_args_def)
  have a3: "device (example_args ''rr01'' None True None) = ''rr01''" by (simp add: example_args_def)
  show ?thesis
    by (rule reflector_only_device [OF example_device_list example_roles_value r m h s b l ns nb nl a1 a2 a3])
qed

section \<open>Bulk generation and the command line\<close>




lemma cfg_filename_inj: "cfg_filename h t = cfg_filename h t' \<Longrightarrow> t = t'"
  by (simp add: cfg_filename_def)

lemma files_print [simp]: "files (print l w) = files w"
  by (simp add: print_def)

lemma save_all_files:
  assumes "\<forall>t\<in>set ts. \<forall>parts w'. write_failure E dir (cfg_filename h t) parts w' = None"
  shows "\<exists>w'. save_all E h dir (map (\<lambda>t. (t, f t)) ts) w = Inr w' \<and>
           (\<forall>t. files w' (dir, cfg_filename h t) =
                  (if t \<in> set ts then Some (concat (bulk_header h t) @ f t)
                   else files w (dir, cfg_filename h t)))"
  using assms
proof (induction ts arbitrary: w)
  case Nil
  then show ?case by simp
next
  case (Cons x xs)
  define w1 where "w1 = print (''Saved: '' @ path_str E dir (cfg_filename h x))
     (w\<lparr>files := (files w)((dir, cfg_filename h x) \<mapsto> concat (bulk_header h x @ [f x]))\<rparr>)"
  have nf: "write_failure E dir (cfg_filename h x) (bulk_header h x @ [f x]) w = None"
    using Cons.prems by simp
  have one: "save_one E h dir w (x, f x) = Inr w1"
    by (simp add: save_one_def write_file_def nf w1_def)
  have rest: "\<forall>t\<in>set xs. \<forall>parts w'. write_failure E dir (cfg_filename h t) parts w' = None"
    using Cons.prems by simp
  from Cons.IH [OF rest, of w1] obtain w' where
    s: "save_all E h dir (map (\<lambda>t. (t, f t)) xs) w1 = Inr w'" and
    fl: "\<And>t. files w' (dir, cfg_filename h t) =
                  (if t \<in> set xs then Some (concat (bulk_header h t) @ f t)
                   else files w1 (dir, cfg_filename h t))"
    by blast
  have f1: "files w1 (dir, cfg_filename h t) =
              (if t = x then Some (concat (bulk_header h t) @ f t) else files w (dir, cfg_filename h t))" for t
    using cfg_filename_inj [of h t x] by (auto simp: w1_def)
  have "save_all E h dir (map (\<lambda>t. (t, f t)) (x # xs)) w = Inr w'"
    by (simp add: one s)
  moreover have "files w' (dir, cfg_filename h t) =
                  (if t \<in> set (x # xs) then Some (concat (bulk_header h t) @ f t)
                   else files w (dir, cfg_filename h t))" for t
    unfolding fl f1 by simp
  ultimately show ?case by blast
qed


lemma generate_branch_save:
  assumes "get_device_role d (SStr (device a)) = Inr role" and "all_templates a"
    and "truthy (output_dir a) = Some dir"
    and "\<forall>w'. mkdir_failure E dir w' = None"
    and "\<forall>t\<in>set (definition_templates @ fabric_templates role).
           \<forall>parts w'. write_failure E dir (cfg_filename (device a) t) parts w' = None"
  shows "fst (generate_branch E d a w) = 0"
    and "t \<in> set (definition_templates @ fabric_templates role) \<Longrightarrow>
         files (snd (generate_branch E d a w)) (dir, cfg_filename (device a) t) =
           Some (concat (bulk_header (device a) t) @ config_slot E d (device a) t)"
proof -
  have g: "generate_all_configs E d (device a) =
      Inr (map (\<lambda>t. (t, config_slot E d (device a) t)) (definition_templates @ fabric_templates role))"
    by (simp add: generate_all_configs_eq assms(1))
  from save_all_files [OF assms(5), of "config_slot E d (device a)" w] obtain w' where
    s: "save_all E (device a) dir
          (map (\<lambda>t. (t, config_slot E d (device a) t)) (definition_templates @ fabric_templates role)) w = Inr w'"
    and fl: "\<And>t. files w' (dir, cfg_filename (device a) t) =
                  (if t \<in> set (definition_templates @ fabric_templates role)
                   then Some (concat (bulk_header (device a) t) @ config_slot E d (device a) t)
                   else files w (dir, cfg_filename (device a) t))"
    by blast
  have sd: "save_device_configs E d (device a) dir w = Inr w'"
    using s by (simp add: save_device_configs_def mkdir_def assms(4) g)
  have gb: "generate_branch E d a w = (0, w')"
    by (simp add: generate_branch_def assms(2) assms(3) sd)
  show "fst (generate_branch E d a w) = 0" by (simp add: gb)
  show "t \<in> set (definition_templates @ fabric_templates role) \<Longrightarrow>
         files (snd (generate_branch E d a w)) (dir, cfg_filename (device a) t) =
           Some (concat (bulk_header (device a) t) @ config_slot E d (device a) t)"
    by (simp add: gb fl)
qed




lemma example_mapper_returns:
  "\<exists>tv. generate_device_specific_vars (example_doc ''leaf01'' [YInt 10]) ''leaf01'' = Inr tv"
proof -
  have "case generate_device_specific_vars (example_doc ''leaf01'' [YInt 10]) ''leaf01'' of
          Inl e \<Rightarrow> False | Inr tv \<Rightarrow> True"
    by code_simp
  then show ?thesis by (simp split: sum.splits)
qed



lemma example_files_writable:
  "\<forall>t\<in>set (definition_templates @ fabric_templates ''leaf''). \<forall>parts w'.
     write_failure (example_env broken) dir (cfg_filename ''leaf01'' t) parts w' = None"
  by (simp add: definition_templates_eq fabric_templates_cases cfg_filename_def example_env_def)








section \<open>The fabric renderer\<close>

lemma render_wrapper_fails:
  "render_nodes E vars (wrapper_template content h) = Inl TypeError"
  by (simp add: wrapper_template_def)

text \<open>
  Claim C2, on the code. Claim C2 says that rendering FABRIC-VRF and FABRIC-OVERLAY reaches
  the macro calls of the wrapper template. The code does not: the wrapper is rendered by
  a template made with \<^verbatim>\<open>Template(...)\<close>, whose environment has no loader, so its first
  include raises; the except branch then renders the fabric template's file alone. For
  every file, variable set and hostname, the result of \<^verbatim>\<open>_render_fabric_template\<close> is that
  of the fallback, and no macro call of the wrapper is ever run.
\<close>

theorem render_fabric_template_falls_back:
  "render_fabric_template E template_file template_vars device_hostname =
     env_render E template_file template_vars"
  by (cases "open_read E template_file")
     (simp_all add: render_fabric_template_def standalone_render_def render_wrapper_fails)

section \<open>The Validator\<close>

lemma validate_parts:
  assumes "validate_data_model d = Inr errs"
  shows "\<exists>e1 vrf_ids ids devs ul uks e4.
           required_field_errors d = Inr e1 \<and>
           vrf_ids_of d = Inr vrf_ids \<and>
           mapE py_hash vrf_ids = Inr ids \<and>
           all_role_devices d = Inr devs \<and>
           getpath d [''devices'', ''loopbacks'', ''underlay''] = Inr ul \<and>
           py_keys ul = Inr uks \<and>
           mapping_errors (set ids) d = Inr e4 \<and>
           errs = e1
                  @ (if length vrf_ids \<noteq> card (set ids) then [VrfIdsNotUnique] else [])
                  @ (if set_minus devs (set uks) \<noteq> []
                     then [DevicesMissingLoopbacks (set_minus devs (set uks))] else [])
                  @ e4"
  using assms unfolding validate_data_model_def Let_def bindE_eq_Inr
  by blast














section \<open>The Mapper\<close>

lemma map_of_dict_set: "map_of (dict_set kvs k v) = (map_of kvs)(k \<mapsto> v)"
  by (induction kvs) (auto simp: fun_eq_iff)

lemma keys_dict_set: "fst ` set (dict_set kvs k v) = insert k (fst ` set kvs)"
proof -
  have "dom (map_of (dict_set kvs k v)) = insert k (dom (map_of kvs))"
    by (simp add: map_of_dict_set)
  then show ?thesis by (simp add: dom_map_of_conv_image_fst)
qed

lemma run_assignments_keys:
  "run_assignments nes tv0 = Inr tv \<Longrightarrow> fst ` set tv = fst ` set tv0 \<union> fst ` set nes"
proof (induction nes arbitrary: tv0)
  case Nil
  then show ?case by simp
next
  case (Cons ne nes)
  then obtain v where "snd ne = Inr v" "run_assignments nes (dict_set tv0 (fst ne) v) = Inr tv"
    by (auto simp: bindE_eq_Inr)
  then show ?case using Cons.IH by (auto simp: keys_dict_set)
qed

lemma run_assignments_other:
  "run_assignments nes tv0 = Inr tv \<Longrightarrow> n \<notin> fst ` set nes \<Longrightarrow> map_of tv n = map_of tv0 n"
proof (induction nes arbitrary: tv0)
  case Nil
  then show ?case by simp
next
  case (Cons ne nes)
  then obtain v where "snd ne = Inr v" "run_assignments nes (dict_set tv0 (fst ne) v) = Inr tv"
    by (auto simp: bindE_eq_Inr)
  then show ?case using Cons.IH [of "dict_set tv0 (fst ne) v"] Cons.prems(2)
    by (simp add: map_of_dict_set)
qed

lemma run_assignments_lookup:
  "run_assignments nes tv0 = Inr tv \<Longrightarrow> distinct (map fst nes) \<Longrightarrow> (n, e) \<in> set nes \<Longrightarrow>
   \<exists>v. e = Inr v \<and> map_of tv n = Some v"
proof (induction nes arbitrary: tv0)
  case Nil
  then show ?case by simp
next
  case (Cons ne nes)
  then obtain v where v: "snd ne = Inr v"
    and r: "run_assignments nes (dict_set tv0 (fst ne) v) = Inr tv"
    by (auto simp: bindE_eq_Inr)
  show ?case
  proof (cases "(n, e) = ne")
    case True
    have fn: "fst ne = n" using True by auto
    have "fst ne \<notin> set (map fst nes)" using Cons.prems(2) by simp
    then have "n \<notin> fst ` set nes" unfolding fn set_map .
    from run_assignments_other [OF r this] True v show ?thesis
      by (auto simp: map_of_dict_set)
  next
    case False
    then have "(n, e) \<in> set nes" using Cons.prems(3) by simp
    then show ?thesis using Cons.IH [OF r] Cons.prems(2) by simp
  qed
qed

lemma mapper_names_distinct: "distinct (map fst (mapper_assignments d))"
  by (simp add: mapper_assignments_def)

lemma mapper_names:
  "fst ` set (mapper_assignments d) =
     {''FABRIC_BGP_ASN'', ''FABRIC_UNDERLAY'', ''FABRIC_IPSEC_UNDERLAY'', ''L2VNIOFFSET'',
      ''L3VNIOFFSET'', ''FABRIC_RP_ADDR'', ''FABRIC_RP_SCOPES'', ''ENTERPRISE_RP_ADDR'',
      ''ENTERPRISE_RP_SCOPES'', ''DEFN_NODE_ROLES'', ''DEFN_LOOP_UNDERLAY'', ''DEFN_LOOP_IPSEC'',
      ''DEFN_LOOP_MCLUSTER'', ''DEFN_LOOP_OVERLAY'', ''DEFN_LOOP_NAME'', ''DEFN_VRF'',
      ''DEFN_VRF_TO_NODE'', ''DEFN_OVERLAY'', ''DEFN_L3OUT'', ''DEFN_L3OUT_AGGREGATES'',
      ''DEFN_NAC_IOT'', ''DEFN_IPSEC''}"
  by (simp add: mapper_assignments_def)

lemma mapper_vrf_vars:
  assumes "run_assignments (mapper_assignments d) [] = Inr tv0"
  shows "\<exists>defs dm. getpath d [''vrfs'', ''definitions''] = Inr defs \<and>
           getpath d [''vrfs'', ''device_mappings''] = Inr dm \<and>
           map_of tv0 ''DEFN_VRF'' = Some defs \<and> map_of tv0 ''DEFN_VRF_TO_NODE'' = Some dm"
proof -
  have a: "(''DEFN_VRF'', getpath d [''vrfs'', ''definitions'']) \<in> set (mapper_assignments d)"
    by (simp add: mapper_assignments_def)
  have b: "(''DEFN_VRF_TO_NODE'', getpath d [''vrfs'', ''device_mappings'']) \<in> set (mapper_assignments d)"
    by (simp add: mapper_assignments_def)
  from run_assignments_lookup [OF assms mapper_names_distinct a]
       run_assignments_lookup [OF assms mapper_names_distinct b]
  show ?thesis by blast
qed








text \<open>
  The variable set that the Mapper returns never binds \<^verbatim>\<open>template_file\<close>, the name that
  the wrapper template of \<^verbatim>\<open>_render_fabric_template\<close> compares with the file names: both
  tests of its if/elif are false on it.
\<close>

lemma device_context_shape:
  "device_context h tv0 = Inr tv \<Longrightarrow>
     tv = tv0 \<or> (\<exists>x. tv = dict_set tv0 ''__device'' x) \<or>
     (\<exists>x y z. tv = dict_set (dict_set (dict_set tv0 ''__device'' x) ''vrf_list'' y) ''vrf_list'' z)"
  unfolding device_context_def Let_def
  by (auto simp: bindE_eq_Inr split: option.splits if_splits)

lemma device_context_keys:
  assumes "device_context h tv0 = Inr tv"
  shows "fst ` set tv \<subseteq> fst ` set tv0 \<union> {''__device'', ''vrf_list''}"
proof -
  consider "tv = tv0" | x where "tv = dict_set tv0 ''__device'' x"
    | x y z where "tv = dict_set (dict_set (dict_set tv0 ''__device'' x) ''vrf_list'' y) ''vrf_list'' z"
    using device_context_shape [OF assms] by blast
  then show ?thesis
  proof cases
    case 1
    then show ?thesis by blast
  next
    case 2
    show ?thesis unfolding 2 keys_dict_set by blast
  next
    case 3
    show ?thesis unfolding 3 keys_dict_set by blast
  qed
qed

lemma mapper_never_binds_template_file:
  assumes "convert_to_template_vars d h = Inr tv"
  shows "map_of tv ''template_file'' = None"
    and "\<not> jinja_eq (eval_expr tv (Name ''template_file'')) (eval_expr tv (Const f))"
proof -
  obtain tv0 where r: "run_assignments (mapper_assignments d) [] = Inr tv0"
    and c: "device_context h tv0 = Inr tv"
    using assms by (auto simp: convert_to_template_vars_def bindE_eq_Inr)
  have "''template_file'' \<notin> fst ` set tv0 \<union> {''__device'', ''vrf_list''}"
    unfolding run_assignments_keys [OF r] mapper_names by simp
  then have "''template_file'' \<notin> fst ` set tv"
    using device_context_keys [OF c] by blast
  then show n: "map_of tv ''template_file'' = None"
    by (simp add: map_of_eq_None_iff)
  show "\<not> jinja_eq (eval_expr tv (Name ''template_file'')) (eval_expr tv (Const f))"
    by (simp add: n)
qed

section \<open>The Validator and the Mapper\<close>

text \<open>What follows shows, step by step, where \<^verbatim>\<open>convert_to_template_vars\<close> cannot raise
  KeyError.\<close>

lemma walk_getpath: "walk_parts p d \<Longrightarrow> \<exists>v. getpath d p = Inr v"
proof (induction p arbitrary: d)
  case Nil
  then show ?case by simp
next
  case (Cons part parts)
  then obtain kvs v where "d = YDict kvs" "map_of kvs (SStr part) = Some v" "walk_parts parts v"
    by (auto split: yaml.splits option.splits)
  then show ?case using Cons.IH by auto
qed

lemma has_fields_getitem:
  assumes "has_fields ks v" and "f \<in> set ks"
  shows "\<exists>w. getitem v f = Inr w"
proof -
  have "walk_parts [f] v" using assms by (simp add: has_fields_def list_all_iff)
  from walk_getpath [OF this] show ?thesis by (auto simp: bindE_eq_Inr)
qed

lemma bindE_nk:
  assumes "m \<noteq> Inl (KeyError k)" and "\<And>x. m = Inr x \<Longrightarrow> f x \<noteq> Inl (KeyError k)"
  shows "bindE m f \<noteq> Inl (KeyError k)"
  using assms by (cases m) auto

lemma mapE_nk:
  "(\<And>x. x \<in> set xs \<Longrightarrow> f x \<noteq> Inl (KeyError k)) \<Longrightarrow> mapE f xs \<noteq> Inl (KeyError k)"
proof (induction xs)
  case Nil
  then show ?case by simp
next
  case (Cons x xs)
  have a: "f x \<noteq> Inl (KeyError k)" using Cons.prems by simp
  have b: "mapE f xs \<noteq> Inl (KeyError k)" using Cons by simp
  show ?case
    unfolding mapE.simps
    by (rule bindE_nk [OF a]) (rule bindE_nk [OF b], simp)
qed

lemma py_iter_nk: "py_iter v \<noteq> Inl (KeyError k)"
  by (cases v rule: py_iter.cases) simp_all

lemma py_items_nk: "py_items v \<noteq> Inl (KeyError k)"
  by (cases v) simp_all

lemma py_hash_nk: "py_hash v \<noteq> Inl (KeyError k)"
  by (cases v) simp_all

lemma py_contains_nk: "py_contains c x \<noteq> Inl (KeyError k)"
proof (cases c)
  case (YScalar s)
  then show ?thesis by (cases s) (simp_all split: yaml.splits scalar.splits)
next
  case (YList ys)
  then show ?thesis by simp
next
  case (YDict kvs)
  then show ?thesis by (cases x) simp_all
qed

lemma dict_literal_nk:
  assumes "\<And>ke. ke \<in> set kes \<Longrightarrow> snd ke \<noteq> Inl (KeyError k)"
  shows "dict_literal kes \<noteq> Inl (KeyError k)"
  unfolding dict_literal_def
proof (rule bindE_nk)
  show "mapE (\<lambda>ke. bindE (snd ke) (\<lambda>v. Inr (SStr (fst ke), v))) kes \<noteq> Inl (KeyError k)"
    by (rule mapE_nk) (rule bindE_nk, erule assms, simp)
qed simp

lemma record_nk:
  assumes "has_fields (map snd kfs) v"
  shows "dict_literal (map (\<lambda>kf. (fst kf, getitem v (snd kf))) kfs) \<noteq> Inl (KeyError k)"
proof (rule dict_literal_nk)
  fix ke assume "ke \<in> set (map (\<lambda>kf. (fst kf, getitem v (snd kf))) kfs)"
  then obtain kf where "kf \<in> set kfs" "snd ke = getitem v (snd kf)" by auto
  then show "snd ke \<noteq> Inl (KeyError k)"
    using has_fields_getitem [OF assms, of "snd kf"] by auto
qed

lemma map_seq_nk:
  assumes "\<And>xs x. py_iter s = Inr xs \<Longrightarrow> x \<in> set xs \<Longrightarrow> f x \<noteq> Inl (KeyError k)"
  shows "map_seq f s \<noteq> Inl (KeyError k)"
  unfolding map_seq_def
proof (rule bindE_nk [OF py_iter_nk])
  fix xs assume "py_iter s = Inr xs"
  then have "mapE f xs \<noteq> Inl (KeyError k)" using assms by (intro mapE_nk) blast
  then show "bindE (mapE f xs) (\<lambda>ys. Inr (YList ys)) \<noteq> Inl (KeyError k)"
    by (rule bindE_nk) simp
qed

lemma map_items_nk:
  assumes "\<And>kvs kv. py_items m = Inr kvs \<Longrightarrow> kv \<in> set kvs \<Longrightarrow> f (snd kv) \<noteq> Inl (KeyError k)"
  shows "map_items f m \<noteq> Inl (KeyError k)"
  unfolding map_items_def
proof (rule bindE_nk [OF py_items_nk])
  fix kvs assume a: "py_items m = Inr kvs"
  have "mapE (\<lambda>kv. bindE (f (snd kv)) (\<lambda>w. Inr (fst kv, w))) kvs \<noteq> Inl (KeyError k)"
    by (rule mapE_nk) (rule bindE_nk, erule assms [OF a], simp)
  then show "bindE (mapE (\<lambda>kv. bindE (f (snd kv)) (\<lambda>w. Inr (fst kv, w))) kvs)
          (\<lambda>new. Inr (YDict (dict_of_items new))) \<noteq> Inl (KeyError k)"
    by (rule bindE_nk) simp
qed

lemma each_element_nk:
  assumes "each_element P s" and "\<And>x. P x \<Longrightarrow> f x \<noteq> Inl (KeyError k)"
  shows "map_seq f s \<noteq> Inl (KeyError k)"
proof (rule map_seq_nk)
  fix xs x assume "py_iter s = Inr xs" "x \<in> set xs"
  then have "P x" using assms(1) by (simp add: each_element_def list_all_iff)
  then show "f x \<noteq> Inl (KeyError k)" by (rule assms(2))
qed

lemma each_value_nk:
  assumes "each_value P m" and "\<And>x. P x \<Longrightarrow> f x \<noteq> Inl (KeyError k)"
  shows "map_items f m \<noteq> Inl (KeyError k)"
proof (rule map_items_nk)
  fix kvs kv assume "py_items m = Inr kvs" "kv \<in> set kvs"
  then have "P (snd kv)" using assms(1) by (simp add: each_value_def list_all_iff)
  then show "f (snd kv) \<noteq> Inl (KeyError k)" by (rule assms(2))
qed

lemma vlan_def_nk:
  "has_fields [''name'', ''ip_address'', ''mac_address'', ''dhcp_helper'', ''bum_address''] vc
   \<Longrightarrow> vlan_def vc \<noteq> Inl (KeyError k)"
  using record_nk [of "[(''name'', ''name''), (''ipaddr'', ''ip_address''), (''mac'', ''mac_address''),
       (''dhcp_helper'', ''dhcp_helper''), (''bum_addr'', ''bum_address'')]" vc k]
  by (simp add: vlan_def_def)

lemma intf_def_nk:
  "has_fields [''name'', ''vlan'', ''ip_address'', ''neighbor_ip''] ic
   \<Longrightarrow> intf_def ic \<noteq> Inl (KeyError k)"
  using record_nk [of "[(''name'', ''name''), (''vlan'', ''vlan''), (''ipaddr'', ''ip_address''),
       (''neighbour'', ''neighbor_ip'')]" ic k]
  by (simp add: intf_def_def)

lemma nac_def_nk:
  "has_fields [''vrf'', ''server_ip'', ''shared_key''] sv \<Longrightarrow> nac_def sv \<noteq> Inl (KeyError k)"
  using record_nk [of "[(''vrf'', ''vrf''), (''nac_ip'', ''server_ip''), (''nac_key'', ''shared_key'')]" sv k]
  by (simp add: nac_def_def)

lemma tunnel_def_nk:
  "has_fields [''tunnel_ip'', ''peer_ip'', ''tunnel_destination'', ''tunnel_mode'', ''peer_bgp_asn''] tn
   \<Longrightarrow> tunnel_def tn \<noteq> Inl (KeyError k)"
  using record_nk [of "[(''tun_ip'', ''tunnel_ip''), (''peer_ip'', ''peer_ip''),
       (''tun_dst'', ''tunnel_destination''), (''tun_mode'', ''tunnel_mode''),
       (''peer_bgp_asn'', ''peer_bgp_asn'')]" tn k]
  by (simp add: tunnel_def_def)

lemma overlay_def_nk:
  assumes "overlay_complete x"
  shows "overlay_def x \<noteq> Inl (KeyError k)"
proof -
  have hf: "has_fields [''vrf'', ''vlans''] x" using assms by (simp add: overlay_complete_def)
  obtain vrf where vrf: "getitem x ''vrf'' = Inr vrf"
    using has_fields_getitem [OF hf, of "''vrf''"] by auto
  obtain vl where vl: "getitem x ''vlans'' = Inr vl"
    using has_fields_getitem [OF hf, of "''vlans''"] by auto
  have "each_value (has_fields [''name'', ''ip_address'', ''mac_address'', ''dhcp_helper'',
                                 ''bum_address'']) vl"
    using assms vl by (simp add: overlay_complete_def at_key_def)
  then have "map_items vlan_def vl \<noteq> Inl (KeyError k)"
    by (rule each_value_nk) (rule vlan_def_nk)
  then have "bindE (map_items vlan_def vl)
               (\<lambda>v. Inr (YDict [(SStr ''vrf'', vrf), (SStr ''vlans'', v)])) \<noteq> Inl (KeyError k)"
    by (rule bindE_nk) simp
  then show ?thesis by (simp add: overlay_def_def vrf vl)
qed

lemma l3out_def_nk:
  assumes "connection_complete x"
  shows "l3out_def x \<noteq> Inl (KeyError k)"
proof -
  have hf: "has_fields [''vrf'', ''device'', ''neighbor_asn'', ''interfaces''] x"
    using assms by (simp add: connection_complete_def)
  obtain vrf where vrf: "getitem x ''vrf'' = Inr vrf"
    using has_fields_getitem [OF hf, of "''vrf''"] by auto
  obtain node where node: "getitem x ''device'' = Inr node"
    using has_fields_getitem [OF hf, of "''device''"] by auto
  obtain asn where asn: "getitem x ''neighbor_asn'' = Inr asn"
    using has_fields_getitem [OF hf, of "''neighbor_asn''"] by auto
  obtain intfs where intfs: "getitem x ''interfaces'' = Inr intfs"
    using has_fields_getitem [OF hf, of "''interfaces''"] by auto
  have "each_value (has_fields [''name'', ''vlan'', ''ip_address'', ''neighbor_ip'']) intfs"
    using assms intfs by (simp add: connection_complete_def at_key_def)
  then have "map_items intf_def intfs \<noteq> Inl (KeyError k)"
    by (rule each_value_nk) (rule intf_def_nk)
  then have "bindE (map_items intf_def intfs)
               (\<lambda>il. Inr (YDict [(SStr ''vrf'', vrf), (SStr ''node'', node),
                 (SStr ''neighbour_asn'', asn), (SStr ''interfaces'', il)])) \<noteq> Inl (KeyError k)"
    by (rule bindE_nk) simp
  then show ?thesis by (simp add: l3out_def_def vrf node asn intfs)
qed


lemma run_assignments_nk:
  "(\<And>ne. ne \<in> set nes \<Longrightarrow> snd ne \<noteq> Inl (KeyError k)) \<Longrightarrow>
   run_assignments nes tv \<noteq> Inl (KeyError k)"
proof (induction nes arbitrary: tv)
  case Nil
  then show ?case by simp
next
  case (Cons ne nes)
  have a: "snd ne \<noteq> Inl (KeyError k)" using Cons.prems by simp
  show ?case
    unfolding run_assignments.simps
    by (rule bindE_nk [OF a]) (rule Cons.IH, simp add: Cons.prems)
qed

lemma validated_paths:
  assumes "validate_data_model d = Inr errs"
  shows "\<exists>defs vs dm ul.
           getpath d [''vrfs'', ''definitions''] = Inr defs \<and> py_iter defs = Inr vs \<and>
           (\<forall>v\<in>set vs. \<exists>i. getitem v ''id'' = Inr i) \<and>
           getpath d [''vrfs'', ''device_mappings''] = Inr dm \<and>
           getpath d [''devices'', ''loopbacks'', ''underlay''] = Inr ul"
proof -
  obtain vrf_ids ids ul e4 where
        p2: "vrf_ids_of d = Inr vrf_ids"
    and p5: "getpath d [''devices'', ''loopbacks'', ''underlay''] = Inr ul"
    and p7: "mapping_errors (set ids) d = Inr e4"
    using validate_parts [OF assms] by blast
  obtain defs vs where d1: "getpath d [''vrfs'', ''definitions''] = Inr defs"
    and d2: "py_iter defs = Inr vs" and d3: "mapE (\<lambda>vrf. getitem vrf ''id'') vs = Inr vrf_ids"
    using p2 unfolding vrf_ids_of_def bindE_eq_Inr by blast
  have d4: "\<exists>i. getitem v ''id'' = Inr i" if "v \<in> set vs" for v
    using list_all2_in_left [OF mapE_Inr_all2 [OF d3] that] by blast
  obtain dm where d5: "getpath d [''vrfs'', ''device_mappings''] = Inr dm"
    using p7 unfolding mapping_errors_def bindE_eq_Inr by blast
  show ?thesis using d1 d2 d4 d5 p5 by blast
qed

lemma unvalidated_path_nk:
  assumes "unvalidated_fields_present d" and "p \<in> set unvalidated_paths"
  shows "getpath d p \<noteq> Inl (KeyError k)"
proof -
  have "walk_parts p d"
    using assms by (simp add: unvalidated_fields_present_def list_all_iff)
  from walk_getpath [OF this] show ?thesis by auto
qed

lemma list_all_unfold:
  "list_all P (x # xs) = (P x \<and> list_all P xs)" "list_all P [] = True"
  by simp_all

lemma node_roles_nk:
  assumes "unvalidated_fields_present d"
  shows "node_roles d \<noteq> Inl (KeyError k)"
proof -
  note P = unvalidated_path_nk [OF assms, where k = k]
  have "list_all (\<lambda>ke. snd ke \<noteq> Inl (KeyError k))
     [(''SPINE'', getpath d [''devices'', ''roles'', ''spine'']),
      (''RR'', getpath d [''devices'', ''roles'', ''route_reflector'']),
      (''CLIENT'', getpath d [''devices'', ''roles'', ''client'']),
      (''BORDER'', getpath d [''devices'', ''roles'', ''border''])]"
    unfolding list_all_unfold snd_conv
    apply (intro conjI)
    subgoal by (rule P) (simp add: unvalidated_paths_def)
    subgoal by (rule P) (simp add: unvalidated_paths_def)
    subgoal by (rule P) (simp add: unvalidated_paths_def)
    subgoal by (rule P) (simp add: unvalidated_paths_def)
    subgoal by (rule TrueI)
    done
  then show ?thesis
    unfolding node_roles_def list_all_iff by (intro dict_literal_nk) blast
qed

lemma at_key2:
  assumes "at_key a (at_key b P) d" and "getpath d [a, b] = Inr v"
  shows "P v"
  using assms by (auto simp: at_key_def bindE_eq_Inr)

lemma overlay_assignment_nk:
  assumes "unvalidated_fields_present d"
  shows "bindE (getitem d ''overlay_networks'') (map_seq overlay_def) \<noteq> Inl (KeyError k)"
proof (rule bindE_nk)
  show "getitem d ''overlay_networks'' \<noteq> Inl (KeyError k)"
    using unvalidated_path_nk [OF assms, of "[''overlay_networks'']" k]
    by (cases "getitem d ''overlay_networks''") (simp_all add: unvalidated_paths_def)
next
  fix v assume "getitem d ''overlay_networks'' = Inr v"
  then have "each_element overlay_complete v"
    using assms by (simp add: unvalidated_fields_present_def at_key_def)
  then show "map_seq overlay_def v \<noteq> Inl (KeyError k)"
    by (rule each_element_nk) (rule overlay_def_nk)
qed

lemma l3out_assignment_nk:
  assumes "unvalidated_fields_present d"
  shows "bindE (getpath d [''l3_external'', ''connections'']) (map_seq l3out_def) \<noteq> Inl (KeyError k)"
proof (rule bindE_nk)
  show "getpath d [''l3_external'', ''connections''] \<noteq> Inl (KeyError k)"
    by (rule unvalidated_path_nk [OF assms]) (simp add: unvalidated_paths_def)
next
  fix v assume a: "getpath d [''l3_external'', ''connections''] = Inr v"
  have "at_key ''l3_external'' (at_key ''connections'' (each_element connection_complete)) d"
    using assms by (simp add: unvalidated_fields_present_def)
  from at_key2 [OF this a] show "map_seq l3out_def v \<noteq> Inl (KeyError k)"
    by (rule each_element_nk) (rule l3out_def_nk)
qed

lemma nac_assignment_nk:
  assumes "unvalidated_fields_present d"
  shows "bindE (getpath d [''network_access_control'', ''servers'']) (map_seq nac_def) \<noteq> Inl (KeyError k)"
proof (rule bindE_nk)
  show "getpath d [''network_access_control'', ''servers''] \<noteq> Inl (KeyError k)"
    by (rule unvalidated_path_nk [OF assms]) (simp add: unvalidated_paths_def)
next
  fix v assume a: "getpath d [''network_access_control'', ''servers''] = Inr v"
  have "at_key ''network_access_control''
        (at_key ''servers'' (each_element (has_fields [''vrf'', ''server_ip'', ''shared_key'']))) d"
    using assms by (simp add: unvalidated_fields_present_def)
  from at_key2 [OF this a] show "map_seq nac_def v \<noteq> Inl (KeyError k)"
    by (rule each_element_nk) (rule nac_def_nk)
qed

lemma ipsec_assignment_nk:
  assumes "unvalidated_fields_present d"
  shows "bindE (getpath d [''ipsec'', ''tunnels'']) (map_items (map_seq tunnel_def)) \<noteq> Inl (KeyError k)"
proof (rule bindE_nk)
  show "getpath d [''ipsec'', ''tunnels''] \<noteq> Inl (KeyError k)"
    by (rule unvalidated_path_nk [OF assms]) (simp add: unvalidated_paths_def)
next
  fix v assume a: "getpath d [''ipsec'', ''tunnels''] = Inr v"
  have "at_key ''ipsec''
        (at_key ''tunnels''
           (each_value (each_element
              (has_fields [''tunnel_ip'', ''peer_ip'', ''tunnel_destination'', ''tunnel_mode'',
                           ''peer_bgp_asn''])))) d"
    using assms by (simp add: unvalidated_fields_present_def)
  from at_key2 [OF this a] show "map_items (map_seq tunnel_def) v \<noteq> Inl (KeyError k)"
  proof (rule each_value_nk)
    fix ts
    assume "each_element (has_fields [''tunnel_ip'', ''peer_ip'', ''tunnel_destination'',
                ''tunnel_mode'', ''peer_bgp_asn'']) ts"
    then show "map_seq tunnel_def ts \<noteq> Inl (KeyError k)"
      by (rule each_element_nk) (rule tunnel_def_nk)
  qed
qed

lemma mapper_assignments_nk:
  assumes "validate_data_model d = Inr errs" and "unvalidated_fields_present d"
  shows "list_all (\<lambda>ne. snd ne \<noteq> Inl (KeyError k)) (mapper_assignments d)"
proof -
  obtain defs dm ul where v:
    "getpath d [''vrfs'', ''definitions''] = Inr defs"
    "getpath d [''vrfs'', ''device_mappings''] = Inr dm"
    "getpath d [''devices'', ''loopbacks'', ''underlay''] = Inr ul"
    using validated_paths [OF assms(1)] by blast
  note P = unvalidated_path_nk [OF assms(2), where k = k]
  show ?thesis
    unfolding mapper_assignments_def list_all_unfold snd_conv
    apply (intro conjI)
    subgoal by (rule P) (simp add: unvalidated_paths_def)
    subgoal by (rule P) (simp add: unvalidated_paths_def)
    subgoal by (rule P) (simp add: unvalidated_paths_def)
    subgoal by (rule P) (simp add: unvalidated_paths_def)
    subgoal by (rule P) (simp add: unvalidated_paths_def)
    subgoal by (rule P) (simp add: unvalidated_paths_def)
    subgoal by (rule P) (simp add: unvalidated_paths_def)
    subgoal by (rule P) (simp add: unvalidated_paths_def)
    subgoal by (rule P) (simp add: unvalidated_paths_def)
    subgoal by (rule node_roles_nk [OF assms(2)])
    subgoal unfolding v by simp
    subgoal by (rule P) (simp add: unvalidated_paths_def)
    subgoal by (rule P) (simp add: unvalidated_paths_def)
    subgoal by (rule P) (simp add: unvalidated_paths_def)
    subgoal by (rule P) (simp add: unvalidated_paths_def)
    subgoal unfolding v by simp
    subgoal unfolding v by simp
    subgoal by (rule overlay_assignment_nk [OF assms(2)])
    subgoal by (rule l3out_assignment_nk [OF assms(2)])
    subgoal by (rule P) (simp add: unvalidated_paths_def)
    subgoal by (rule nac_assignment_nk [OF assms(2)])
    subgoal by (rule ipsec_assignment_nk [OF assms(2)])
    subgoal by (rule TrueI)
    done
qed


lemma vrf_names_nk:
  assumes "\<And>v. v \<in> set vs \<Longrightarrow> (\<exists>i. getitem v ''id'' = Inr i) \<and> (\<exists>n. getitem v ''name'' = Inr n)"
  shows "vrf_names ids vs \<noteq> Inl (KeyError k)"
  using assms
proof (induction vs)
  case Nil
  then show ?case by simp
next
  case (Cons v vs)
  obtain i n where i: "getitem v ''id'' = Inr i" and n: "getitem v ''name'' = Inr n"
    using Cons.prems [of v] by auto
  have rest: "vrf_names ids vs \<noteq> Inl (KeyError k)"
    using Cons by simp
  have "bindE (py_contains ids i) (\<lambda>b.
          bindE (if b then bindE (getitem v ''name'') (\<lambda>n. Inr [n]) else Inr []) (\<lambda>here.
          bindE (vrf_names ids vs) (\<lambda>more. Inr (here @ more)))) \<noteq> Inl (KeyError k)"
  proof (rule bindE_nk [OF py_contains_nk])
    fix b
    show "bindE (if b then bindE (getitem v ''name'') (\<lambda>n. Inr [n]) else Inr []) (\<lambda>here.
          bindE (vrf_names ids vs) (\<lambda>more. Inr (here @ more))) \<noteq> Inl (KeyError k)"
    proof (rule bindE_nk)
      show "(if b then bindE (getitem v ''name'') (\<lambda>n. Inr [n]) else Inr []) \<noteq> Inl (KeyError k)"
        by (simp add: n)
    next
      fix here
      show "bindE (vrf_names ids vs) (\<lambda>more. Inr (here @ more)) \<noteq> Inl (KeyError k)"
        by (rule bindE_nk [OF rest]) simp
    qed
  qed
  then show ?case by (simp add: i)
qed

lemma contains_getitem_nk:
  assumes "py_contains dm (YStr h) = Inr True"
  shows "getitem dm h \<noteq> Inl (KeyError k)"
proof (cases dm)
  case (YScalar s)
  then show ?thesis by simp
next
  case (YList xs)
  then show ?thesis by simp
next
  case (YDict kvs)
  then have "SStr h \<in> fst ` set kvs" using assms by simp
  then obtain v where "map_of kvs (SStr h) = Some v"
    by (auto dest: weak_map_of_SomeI)
  then show ?thesis using YDict by simp
qed

lemma device_context_Some:
  assumes "hn \<noteq> []"
  shows "device_context (Some hn) tv =
     bindE (tv_get (dict_set tv ''__device'' (YDict [(SStr ''hostname'', YStr hn)])) ''DEFN_VRF_TO_NODE'') (\<lambda>m.
     bindE (py_contains m (YStr hn)) (\<lambda>b.
     if \<not> b then Inr (dict_set tv ''__device'' (YDict [(SStr ''hostname'', YStr hn)]))
     else
       bindE (tv_get (dict_set (dict_set tv ''__device'' (YDict [(SStr ''hostname'', YStr hn)]))
                ''vrf_list'' (YList [])) ''DEFN_VRF_TO_NODE'') (\<lambda>m2.
       bindE (getitem m2 hn) (\<lambda>device_vrf_ids.
       bindE (tv_get (dict_set (dict_set tv ''__device'' (YDict [(SStr ''hostname'', YStr hn)]))
                ''vrf_list'' (YList [])) ''DEFN_VRF'') (\<lambda>defs.
       bindE (py_iter defs) (\<lambda>vs.
       bindE (vrf_names device_vrf_ids vs) (\<lambda>names.
       Inr (dict_set (dict_set (dict_set tv ''__device'' (YDict [(SStr ''hostname'', YStr hn)]))
                ''vrf_list'' (YList [])) ''vrf_list'' (YList names)))))))))"
  using assms unfolding device_context_def Let_def by simp

lemma device_context_nk:
  assumes "map_of tv0 ''DEFN_VRF_TO_NODE'' = Some dm" and "map_of tv0 ''DEFN_VRF'' = Some defs"
    and "\<And>vs v. py_iter defs = Inr vs \<Longrightarrow> v \<in> set vs \<Longrightarrow>
           (\<exists>i. getitem v ''id'' = Inr i) \<and> (\<exists>n. getitem v ''name'' = Inr n)"
  shows "device_context h tv0 \<noteq> Inl (KeyError k)"
proof (cases h)
  case None
  then show ?thesis by (simp add: device_context_def)
next
  case (Some hn)
  show ?thesis
  proof (cases "hn = []")
    case True
    then show ?thesis using Some by (simp add: device_context_def)
  next
    case False
    let ?tv1 = "dict_set tv0 ''__device'' (YDict [(SStr ''hostname'', YStr hn)])"
    let ?tv2 = "dict_set ?tv1 ''vrf_list'' (YList [])"
    have g1: "tv_get ?tv1 ''DEFN_VRF_TO_NODE'' = Inr dm"
      using assms(1) by (simp add: tv_get_def map_of_dict_set)
    have g2: "tv_get ?tv2 ''DEFN_VRF_TO_NODE'' = Inr dm"
      using assms(1) by (simp add: tv_get_def map_of_dict_set)
    have g3: "tv_get ?tv2 ''DEFN_VRF'' = Inr defs"
      using assms(2) by (simp add: tv_get_def map_of_dict_set)
    have inner: "bindE (getitem dm hn) (\<lambda>device_vrf_ids.
              bindE (py_iter defs) (\<lambda>vs.
              bindE (vrf_names device_vrf_ids vs) (\<lambda>names.
              Inr (dict_set ?tv2 ''vrf_list'' (YList names))))) \<noteq> Inl (KeyError k)"
      if c: "py_contains dm (YStr hn) = Inr True"
    proof (rule bindE_nk [OF contains_getitem_nk [OF c]])
      fix ids
      show "bindE (py_iter defs) (\<lambda>vs.
              bindE (vrf_names ids vs) (\<lambda>names.
              Inr (dict_set ?tv2 ''vrf_list'' (YList names)))) \<noteq> Inl (KeyError k)"
      proof (rule bindE_nk [OF py_iter_nk])
        fix vs assume "py_iter defs = Inr vs"
        then have "vrf_names ids vs \<noteq> Inl (KeyError k)"
          using assms(3) by (intro vrf_names_nk) blast
        then show "bindE (vrf_names ids vs) (\<lambda>names.
              Inr (dict_set ?tv2 ''vrf_list'' (YList names))) \<noteq> Inl (KeyError k)"
          by (rule bindE_nk) simp
      qed
    qed
    have "bindE (py_contains dm (YStr hn)) (\<lambda>b.
            if \<not> b then Inr ?tv1
            else bindE (getitem dm hn) (\<lambda>device_vrf_ids.
              bindE (py_iter defs) (\<lambda>vs.
              bindE (vrf_names device_vrf_ids vs) (\<lambda>names.
              Inr (dict_set ?tv2 ''vrf_list'' (YList names)))))) \<noteq> Inl (KeyError k)"
    proof (rule bindE_nk [OF py_contains_nk])
      fix b assume "py_contains dm (YStr hn) = Inr b"
      then show "(if \<not> b then Inr ?tv1
            else bindE (getitem dm hn) (\<lambda>device_vrf_ids.
              bindE (py_iter defs) (\<lambda>vs.
              bindE (vrf_names device_vrf_ids vs) (\<lambda>names.
              Inr (dict_set ?tv2 ''vrf_list'' (YList names)))))) \<noteq> Inl (KeyError k)"
        using inner by (cases b) simp_all
    qed
    then show ?thesis
      unfolding Some device_context_Some [OF False] g1 g2 g3 bindE_simps .
  qed
qed

text \<open>
  Claim C1, as amended. For every document that the Validator accepts and that also has the
  fields the Mapper reads and the Validator does not (\<open>unvalidated_fields_present\<close>: the
  paths of \<open>unvalidated_paths\<close> and the fields of every overlay, VLAN, connection,
  interface, NAC server, tunnel and VRF-definition record), the Mapper raises no
  KeyError, with or without a hostname. The acceptance gives the keys the Validator
  reads itself: \<^verbatim>\<open>vrfs.definitions\<close> with every \<^verbatim>\<open>id\<close>, \<^verbatim>\<open>vrfs.device_mappings\<close> and
  \<^verbatim>\<open>devices.loopbacks.underlay\<close>.
\<close>

theorem validated_mapper_no_missing_field:
  assumes "validate_data_model d = Inr []" and "unvalidated_fields_present d"
  shows "convert_to_template_vars d device_hostname \<noteq> Inl (KeyError k)"
  unfolding convert_to_template_vars_def
proof (rule bindE_nk)
  show "run_assignments (mapper_assignments d) [] \<noteq> Inl (KeyError k)"
    using mapper_assignments_nk [OF assms, of k]
    by (intro run_assignments_nk) (simp add: list_all_iff)
next
  fix tv0 assume r: "run_assignments (mapper_assignments d) [] = Inr tv0"
  obtain defs dm where g: "getpath d [''vrfs'', ''definitions''] = Inr defs"
    and l: "map_of tv0 ''DEFN_VRF'' = Some defs" "map_of tv0 ''DEFN_VRF_TO_NODE'' = Some dm"
    using mapper_vrf_vars [OF r] by blast
  obtain defs' vs' where g': "getpath d [''vrfs'', ''definitions''] = Inr defs'"
    and i': "py_iter defs' = Inr vs'" and ids: "\<forall>v\<in>set vs'. \<exists>i. getitem v ''id'' = Inr i"
    using validated_paths [OF assms(1)] by blast
  have same: "defs' = defs" using g g' by simp
  have names: "each_element (has_fields [''name'']) defs"
    using at_key2 [OF _ g, of "each_element (has_fields [''name''])"] assms(2)
    by (simp add: unvalidated_fields_present_def)
  have rec: "(\<exists>i. getitem v ''id'' = Inr i) \<and> (\<exists>n. getitem v ''name'' = Inr n)"
    if "py_iter defs = Inr vs" "v \<in> set vs" for vs v
  proof -
    have "vs = vs'" using that(1) i' same by simp
    then have a: "\<exists>i. getitem v ''id'' = Inr i" using ids that(2) by blast
    have "has_fields [''name''] v"
      using names that by (simp add: each_element_def list_all_iff)
    from has_fields_getitem [OF this, of "''name''"] a show ?thesis by simp
  qed
  show "device_context device_hostname tv0 \<noteq> Inl (KeyError k)"
    using l(2) l(1) rec by (rule device_context_nk)
qed

text \<open>The example fabric is accepted and complete.\<close>

lemma example_doc_accepted:
  "validate_data_model (example_doc ''leaf01'' [YInt 10]) = Inr []"
  by code_simp

lemma example_doc_complete:
  "unvalidated_fields_present (example_doc ''leaf01'' [YInt 10])"
  by code_simp

theorem validated_mapper_no_missing_field_witness:
  "validate_data_model (example_doc ''leaf01'' [YInt 10]) = Inr [] \<and>
   unvalidated_fields_present (example_doc ''leaf01'' [YInt 10]) \<and>
   (\<forall>k. convert_to_template_vars (example_doc ''leaf01'' [YInt 10]) (Some ''leaf01'') \<noteq> Inl (KeyError k)) \<and>
   (\<forall>k. convert_to_template_vars (example_doc ''leaf01'' [YInt 10]) None \<noteq> Inl (KeyError k))"
  using example_doc_accepted example_doc_complete
    validated_mapper_no_missing_field [OF example_doc_accepted example_doc_complete]
  by blast

text \<open>
  Claim C1 as stated fails: the Validator accepts \<open>bare_doc\<close>, which lists no required
  field and has only empty sections, and the Mapper raises KeyError on it at its first
  subscript, \<^verbatim>\<open>self.data_model['fabric']\<close>, with and without a hostname.
\<close>

theorem validated_document_missing_field_counterexample:
  "validate_data_model bare_doc = Inr [] \<and>
   convert_to_template_vars bare_doc None = Inl (KeyError ''fabric'') \<and>
   convert_to_template_vars bare_doc (Some ''leaf01'') = Inl (KeyError ''fabric'')"
proof -
  have v: "validate_data_model bare_doc = Inr []"
    by code_simp
  have r: "run_assignments (mapper_assignments bare_doc) [] = Inl (KeyError ''fabric'')"
    by (simp add: mapper_assignments_def bare_doc_def ymap_def)
  show ?thesis
    using v by (simp add: convert_to_template_vars_def r)
qed

section \<open>The two write paths\<close>

lemma example_config_plain:
  "generate_config (example_env []) (example_doc ''leaf01'' [YInt 10]) ''leaf01'' ''DEFN-VRF''
     = Inr ''DEFN-VRF.j2''"
proof -
  obtain tv where tv: "generate_device_specific_vars (example_doc ''leaf01'' [YInt 10]) ''leaf01'' = Inr tv"
    using example_mapper_returns by blast
  have f: "map_of available_templates ''DEFN-VRF'' = Some ''DEFN-VRF.j2''"
    by (simp add: available_templates_def)
  show ?thesis
    by (simp add: generate_config_def f tv startswith_def example_env_def)
qed

text \<open>
  Claim C9, on the code. Both write paths name the file \<^verbatim>\<open>{hostname}_{TEMPLATE}.cfg\<close> and
  replace its content. The bulk path (\<^verbatim>\<open>save_device_configs\<close>) writes a header of four lines
  with the template name, the hostname and the generator identity; the path for a single
  template (\<^verbatim>\<open>main\<close>) writes a header of three lines that has no generator identity. For
  the leaf of the example fabric and the template DEFN-VRF, the two files are as follows.
\<close>

theorem single_template_file_header:
  "files (snd (main (example_env []) (example_doc ''leaf01'' [YInt 10])
                 (example_args ''leaf01'' (Some ''DEFN-VRF'') False (Some ''out'')) empty_world))
     (''out'', ''leaf01_DEFN-VRF.cfg'') =
       Some (''! Configuration generated from DEFN-VRF template\<newline>'' @
             ''! Device: leaf01\<newline>'' @
             ''!\<newline>'' @
             ''DEFN-VRF.j2'') \<and>
   files (snd (main (example_env []) (example_doc ''leaf01'' [YInt 10])
                 (example_args ''leaf01'' None True (Some ''out'')) empty_world))
     (''out'', ''leaf01_DEFN-VRF.cfg'') =
       Some (''! Configuration generated from DEFN-VRF template\<newline>'' @
             ''! Device: leaf01\<newline>'' @
             ''! Generated by BGP EVPN Config Generator\<newline>'' @
             ''!\<newline>'' @
             ''DEFN-VRF.j2'')"
proof -
  let ?E = "example_env []"
  let ?D = "example_doc ''leaf01'' [YInt 10]"
  let ?single = "example_args ''leaf01'' (Some ''DEFN-VRF'') False (Some ''out'')"
  let ?bulk = "example_args ''leaf01'' None True (Some ''out'')"
  have mem: "SStr ''leaf01'' \<in> set [SStr ''border01'', SStr ''leaf01'', SStr ''rr01'', SStr ''spine01'']"
    by simp
  have s: "device ?single = ''leaf01''" "\<not> list_devices ?single" "\<not> list_templates ?single"
    "\<not> all_templates ?single" "truthy (template ?single) = Some ''DEFN-VRF''"
    "truthy (output_dir ?single) = Some ''out''"
    by (simp_all add: example_args_def)
  have b: "device ?bulk = ''leaf01''" "\<not> list_devices ?bulk" "\<not> list_templates ?bulk"
    "all_templates ?bulk" "truthy (output_dir ?bulk) = Some ''out''"
    by (simp_all add: example_args_def)
  have ms: "main ?E ?D ?single empty_world = generate_branch ?E ?D ?single empty_world"
    by (rule main_device_known [OF example_device_list _ s(2) s(3)]) (simp add: s(1))
  have mb: "main ?E ?D ?bulk empty_world = generate_branch ?E ?D ?bulk empty_world"
    by (rule main_device_known [OF example_device_list _ b(2) b(3)]) (simp add: b(1))
  have mk: "\<forall>w'. mkdir_failure ?E ''out'' w' = None"
    by (simp add: example_env_def)
  have wf: "write_failure ?E ''out'' ''leaf01_DEFN-VRF.cfg'' parts w' = None" for parts w'
    by (simp add: example_env_def)
  have one: "files (snd (main ?E ?D ?single empty_world)) (''out'', ''leaf01_DEFN-VRF.cfg'') =
       Some (''! Configuration generated from DEFN-VRF template\<newline>'' @
             ''! Device: leaf01\<newline>'' @ ''!\<newline>'' @ ''DEFN-VRF.j2'')"
    unfolding ms
    by (simp add: generate_branch_def s example_config_plain mkdir_def write_file_def
          single_header_def cfg_filename_def mk wf)
  have r: "get_device_role ?D (SStr (device ?bulk)) = Inr ''leaf''"
    unfolding b(1) by (rule example_roles)
  have t: "''DEFN-VRF'' \<in> set (definition_templates @ fabric_templates ''leaf'')"
    by (simp add: definition_templates_eq)
  have slot: "config_slot ?E ?D ''leaf01'' ''DEFN-VRF'' = ''DEFN-VRF.j2''"
    by (simp add: config_slot_def example_config_plain)
  have wr: "\<forall>t\<in>set (definition_templates @ fabric_templates ''leaf''). \<forall>parts w'.
              write_failure ?E ''out'' (cfg_filename (device ?bulk) t) parts w' = None"
    unfolding b(1) by (rule example_files_writable)
  have "files (snd (main ?E ?D ?bulk empty_world)) (''out'', cfg_filename ''leaf01'' ''DEFN-VRF'') =
          Some (concat (bulk_header ''leaf01'' ''DEFN-VRF'') @ config_slot ?E ?D ''leaf01'' ''DEFN-VRF'')"
    unfolding mb
    using generate_branch_save(2) [where w = empty_world, OF r b(4) b(5) mk wr t]
    unfolding b(1) .
  then have all: "files (snd (main ?E ?D ?bulk empty_world)) (''out'', ''leaf01_DEFN-VRF.cfg'') =
       Some (''! Configuration generated from DEFN-VRF template\<newline>'' @
             ''! Device: leaf01\<newline>'' @
             ''! Generated by BGP EVPN Config Generator\<newline>'' @
             ''!\<newline>'' @ ''DEFN-VRF.j2'')"
    by (simp add: slot bulk_header_def cfg_filename_def)
  show ?thesis using one all by (rule conjI)
qed

text \<open>
  The same run for FABRIC-VRF. In the example environment a macro call would print the
  macro's name; the configuration is the bare render of the file, without it.
\<close>

lemma example_fabric_vrf_render:
  "generate_config (example_env []) (example_doc ''leaf01'' [YInt 10]) ''leaf01'' ''FABRIC-VRF''
     = Inr ''FABRIC-VRF.j2''"
proof -
  obtain tv where tv: "generate_device_specific_vars (example_doc ''leaf01'' [YInt 10]) ''leaf01'' = Inr tv"
    using example_mapper_returns by blast
  have f: "map_of available_templates ''FABRIC-VRF'' = Some ''FABRIC-VRF.j2''"
    by (simp add: available_templates_def)
  have r: "render_fabric_template (example_env []) ''FABRIC-VRF.j2'' tv ''leaf01'' = Inr ''FABRIC-VRF.j2''"
    by (cases "open_read (example_env []) ''FABRIC-VRF.j2''")
       (simp_all add: render_fabric_template_def standalone_render_def render_wrapper_fails
          example_env_def)
  show ?thesis
    by (simp add: generate_config_def f tv startswith_def r)
qed

end
